theory Spec2Isabelle
  imports Complex_Main "HOL-Library.Multiset" "HOL-Library.AList"
begin

section \<open>JavaScript numbers\<close>

text \<open>
  A JavaScript \<^verbatim>\<open>number\<close> is modelled as a finite value or one of the three special
  values. A finite double is the exact real it denotes and the operations below are exact:
  overflow of finite arithmetic is not modelled, rounding only where a definition takes it
  as a parameter (see Rounding below), and the two signed zeros are one value (a zero
  divisor counts as +0).
\<close>

datatype jsnum = Num real | PosInf | NegInf | NaN

fun js_neg :: "jsnum \<Rightarrow> jsnum" where
  "js_neg (Num a) = Num (- a)"
| "js_neg PosInf = NegInf"
| "js_neg NegInf = PosInf"
| "js_neg NaN = NaN"

fun js_add :: "jsnum \<Rightarrow> jsnum \<Rightarrow> jsnum" where
  "js_add NaN _ = NaN"
| "js_add _ NaN = NaN"
| "js_add (Num a) (Num b) = Num (a + b)"
| "js_add PosInf NegInf = NaN"
| "js_add NegInf PosInf = NaN"
| "js_add PosInf _ = PosInf"
| "js_add _ PosInf = PosInf"
| "js_add NegInf _ = NegInf"
| "js_add _ NegInf = NegInf"

definition js_sub :: "jsnum \<Rightarrow> jsnum \<Rightarrow> jsnum" where
  "js_sub a b = js_add a (js_neg b)"

definition inf_of_sign :: "real \<Rightarrow> jsnum" where
  "inf_of_sign s = (if s = 0 then NaN else if 0 < s then PosInf else NegInf)"

fun js_mul :: "jsnum \<Rightarrow> jsnum \<Rightarrow> jsnum" where
  "js_mul NaN _ = NaN"
| "js_mul _ NaN = NaN"
| "js_mul (Num a) (Num b) = Num (a * b)"
| "js_mul (Num a) PosInf = inf_of_sign a"
| "js_mul (Num a) NegInf = inf_of_sign (- a)"
| "js_mul PosInf (Num b) = inf_of_sign b"
| "js_mul NegInf (Num b) = inf_of_sign (- b)"
| "js_mul PosInf PosInf = PosInf"
| "js_mul NegInf NegInf = PosInf"
| "js_mul PosInf NegInf = NegInf"
| "js_mul NegInf PosInf = NegInf"

fun js_div :: "jsnum \<Rightarrow> jsnum \<Rightarrow> jsnum" where
  "js_div NaN _ = NaN"
| "js_div _ NaN = NaN"
| "js_div (Num a) (Num b) = (if b = 0 then inf_of_sign a else Num (a / b))"
| "js_div (Num a) _ = Num 0"
| "js_div PosInf (Num b) = (if 0 \<le> b then PosInf else NegInf)"
| "js_div NegInf (Num b) = (if 0 \<le> b then NegInf else PosInf)"
| "js_div _ _ = NaN"

fun js_lt :: "jsnum \<Rightarrow> jsnum \<Rightarrow> bool" where
  "js_lt NaN _ = False"
| "js_lt _ NaN = False"
| "js_lt (Num a) (Num b) = (a < b)"
| "js_lt _ NegInf = False"
| "js_lt NegInf _ = True"
| "js_lt PosInf _ = False"
| "js_lt _ PosInf = True"

fun js_le :: "jsnum \<Rightarrow> jsnum \<Rightarrow> bool" where
  "js_le NaN _ = False"
| "js_le _ NaN = False"
| "js_le (Num a) (Num b) = (a \<le> b)"
| "js_le NegInf _ = True"
| "js_le _ PosInf = True"
| "js_le _ _ = False"

definition js_gt :: "jsnum \<Rightarrow> jsnum \<Rightarrow> bool" where
  "js_gt a b = js_lt b a"

definition js_ge :: "jsnum \<Rightarrow> jsnum \<Rightarrow> bool" where
  "js_ge a b = js_le b a"

fun js_abs :: "jsnum \<Rightarrow> jsnum" where
  "js_abs (Num a) = Num \<bar>a\<bar>"
| "js_abs NaN = NaN"
| "js_abs _ = PosInf"

text \<open>\<^verbatim>\<open>Math.min(a, b)\<close>: NaN if either argument is NaN.\<close>

definition js_min :: "jsnum \<Rightarrow> jsnum \<Rightarrow> jsnum" where
  "js_min a b = (if a = NaN \<or> b = NaN then NaN else if js_le a b then a else b)"

fun js_floor :: "jsnum \<Rightarrow> jsnum" where
  "js_floor (Num a) = Num (of_int \<lfloor>a\<rfloor>)"
| "js_floor x = x"

text \<open>Truthiness of an optional number: \<^verbatim>\<open>undefined\<close>, 0 and NaN are falsy.\<close>

fun truthy :: "jsnum option \<Rightarrow> bool" where
  "truthy None = False"
| "truthy (Some (Num a)) = (a \<noteq> 0)"
| "truthy (Some NaN) = False"
| "truthy (Some _) = True"

fun is_fin :: "jsnum \<Rightarrow> bool" where
  "is_fin (Num _) = True"
| "is_fin _ = False"

subsection \<open>Rounding\<close>

text \<open>
  Where the number of iterations of a loop depends on the rounding of the arithmetic, the
  definitions take the rounding \<open>rd\<close> of a finite result as a parameter: the identity is
  exact arithmetic, \<open>binary64\<close> below is the arithmetic of JavaScript numbers
  (round to nearest, ties to even, 53 significant bits; overflow and subnormal numbers are
  not modelled).
\<close>

fun js_rd :: "(real \<Rightarrow> real) \<Rightarrow> jsnum \<Rightarrow> jsnum" where
  "js_rd rd (Num a) = Num (rd a)"
| "js_rd rd x = x"

definition round_half_even :: "real \<Rightarrow> int" where
  "round_half_even x =
     (let f = \<lfloor>x\<rfloor>; d = x - of_int f
      in if d < 1 / 2 then f else if 1 / 2 < d then f + 1 else if even f then f else f + 1)"

text \<open>
  Halve or double \<open>m\<close> until it lies in \<open>[2^52, 2^53)\<close>, keeping \<open>m * u\<close> unchanged. The
  first argument bounds the number of steps; 2200 is more than any number in the range of
  the format needs.
\<close>

fun scale53 :: "nat \<Rightarrow> real \<Rightarrow> real \<Rightarrow> real \<times> real" where
  "scale53 0 m u = (m, u)"
| "scale53 (Suc n) m u =
     (if 2 ^ 53 \<le> m then scale53 n (m / 2) (u * 2)
      else if m < 2 ^ 52 then scale53 n (m * 2) (u / 2)
      else (m, u))"

definition binary64 :: "real \<Rightarrow> real" where
  "binary64 x =
     (if x = 0 then 0
      else let mu = scale53 2200 (\<bar>x\<bar> * 2 ^ 52) (1 / 2 ^ 52)
           in sgn x * of_int (round_half_even (fst mu)) * snd mu)"

section \<open>Data model (types.ts)\<close>

record Candle =
  timestamp :: int
  c_open :: jsnum
  high :: jsnum
  low :: jsnum
  close :: jsnum
  volume :: "jsnum option"

datatype TradeDirection = Long | Short

record Trade =
  t_id :: string
  t_entryTime :: int
  t_exitTime :: "int option"
  t_entryPrice :: jsnum
  t_exitPrice :: "jsnum option"
  t_direction :: TradeDirection
  t_size :: jsnum
  t_pnl :: "jsnum option"
  t_pnlPercent :: "jsnum option"
  t_stopLoss :: "jsnum option"
  t_takeProfit :: "jsnum option"
  t_commission :: jsnum

record Position =
  p_id :: string
  p_direction :: TradeDirection
  p_entryTime :: int
  p_entryPrice :: jsnum
  p_size :: jsnum
  p_stopLoss :: "jsnum option"
  p_takeProfit :: "jsnum option"

datatype SignalType = Buy | Sell | Close

record Signal =
  s_type :: SignalType
  s_price :: "jsnum option"
  s_size :: "jsnum option"
  s_stopLoss :: "jsnum option"
  s_takeProfit :: "jsnum option"
  s_reason :: "string option"

datatype pval = PNum jsnum | PStr string | PBool bool

type_synonym StrategyParams = "(string \<times> pval) list"

record BacktestConfig =
  initialCapital :: jsnum
  commission :: jsnum
  slippage :: jsnum
  leverage :: jsnum
  maxPositionSize :: jsnum

definition DEFAULT_BACKTEST_CONFIG :: BacktestConfig where
  "DEFAULT_BACKTEST_CONFIG =
     \<lparr> initialCapital = Num 10000, commission = Num (1 / 10000), slippage = Num (1 / 10),
       leverage = Num 100, maxPositionSize = Num (1 / 10) \<rparr>"

record EquityPoint =
  ep_timestamp :: int
  ep_equity :: jsnum

section \<open>Metrics calculator (metrics/performance.ts)\<close>

text \<open>
  The fields of \<^verbatim>\<open>PerformanceMetrics\<close> that are sums, counts and quotients of the trade
  list and the equity curve. The remaining fields (CAGR, Sharpe, Sortino, drawdown, Calmar,
  durations, largest win and loss, streaks) are functions of the same five arguments and
  are left out.
\<close>

record PerformanceMetrics =
  totalReturn :: jsnum
  totalReturnPercent :: jsnum
  winRate :: jsnum
  profitFactor :: jsnum
  totalTrades :: nat
  winningTrades :: nat
  losingTrades :: nat
  averageWin :: jsnum
  averageLoss :: jsnum
  expectancy :: jsnum

definition getEmptyMetrics :: PerformanceMetrics where
  "getEmptyMetrics =
     \<lparr> totalReturn = Num 0, totalReturnPercent = Num 0, winRate = Num 0, profitFactor = Num 0,
       totalTrades = 0, winningTrades = 0, losingTrades = 0,
       averageWin = Num 0, averageLoss = Num 0, expectancy = Num 0 \<rparr>"

text \<open>\<^verbatim>\<open>t.pnl ?? 0\<close>\<close>

definition pnl_or0 :: "Trade \<Rightarrow> jsnum" where
  "pnl_or0 t = (case t_pnl t of None \<Rightarrow> Num 0 | Some v \<Rightarrow> v)"

text \<open>\<^verbatim>\<open>ts.reduce((sum, t) => sum + (t.pnl ?? 0), 0)\<close>\<close>

definition sum_pnl :: "Trade list \<Rightarrow> jsnum" where
  "sum_pnl ts = foldl (\<lambda>sum t. js_add sum (pnl_or0 t)) (Num 0) ts"

definition completedTrades :: "Trade list \<Rightarrow> Trade list" where
  "completedTrades trades = filter (\<lambda>t. t_pnl t \<noteq> None) trades"

definition finalEquity :: "EquityPoint list \<Rightarrow> jsnum \<Rightarrow> jsnum" where
  "finalEquity equityCurve initCap =
     (if length equityCurve > 0 then ep_equity (last equityCurve) else initCap)"

definition totalWins :: "Trade list \<Rightarrow> jsnum" where
  "totalWins trades =
     sum_pnl (filter (\<lambda>t. js_gt (pnl_or0 t) (Num 0)) (completedTrades trades))"

definition totalLosses :: "Trade list \<Rightarrow> jsnum" where
  "totalLosses trades =
     js_abs (sum_pnl (filter (\<lambda>t. js_lt (pnl_or0 t) (Num 0)) (completedTrades trades)))"

definition calculateMetrics ::
  "Trade list \<Rightarrow> EquityPoint list \<Rightarrow> jsnum \<Rightarrow> int \<Rightarrow> int \<Rightarrow> PerformanceMetrics" where
  "calculateMetrics trades equityCurve initCap startDate endDate =
     (let completed = completedTrades trades in
      if length completed = 0 then getEmptyMetrics
      else
        let finalEq = finalEquity equityCurve initCap;
            totRet = js_sub finalEq initCap;
            totRetPct = js_mul (js_div totRet initCap) (Num 100);
            winning = filter (\<lambda>t. js_gt (pnl_or0 t) (Num 0)) completed;
            losing = filter (\<lambda>t. js_lt (pnl_or0 t) (Num 0)) completed;
            tw = totalWins trades;
            tl = totalLosses trades
        in \<lparr> totalReturn = totRet,
             totalReturnPercent = totRetPct,
             winRate = js_mul (js_div (Num (real (length winning))) (Num (real (length completed))))
                         (Num 100),
             profitFactor =
               (if js_gt tl (Num 0) then js_div tw tl
                else if js_gt tw (Num 0) then PosInf else Num 0),
             totalTrades = length completed,
             winningTrades = length winning,
             losingTrades = length losing,
             averageWin = (if length winning > 0 then js_div tw (Num (real (length winning)))
                           else Num 0),
             averageLoss = (if length losing > 0 then js_div tl (Num (real (length losing)))
                            else Num 0),
             expectancy = (if length completed > 0
                           then js_div totRet (Num (real (length completed))) else Num 0) \<rparr>)"

section \<open>Strategy contract (strategy-base.ts)\<close>

text \<open>
  A strategy instance is its name, its parameters and two deterministic functions over a
  private state \<open>'s\<close>: \<^verbatim>\<open>init\<close> builds the state from the candles and the configuration,
  \<^verbatim>\<open>onCandle\<close> returns a signal (or none) and the next state. \<^verbatim>\<open>onComplete\<close> returns
  nothing to the engine and is not part of the model.
\<close>

record 's Strategy =
  st_name :: string
  st_params :: StrategyParams
  st_init :: "Candle list \<Rightarrow> BacktestConfig \<Rightarrow> 's"
  st_onCandle :: "'s \<Rightarrow> nat \<Rightarrow> Candle list \<Rightarrow> Position option \<Rightarrow> Signal option \<times> 's"

section \<open>Backtest engine (backtest-engine.ts)\<close>

datatype error = NoCandleData | TypeError

record BacktestResult =
  r_strategy :: string
  r_params :: StrategyParams
  r_config :: BacktestConfig
  r_trades :: "Trade list"
  r_equityCurve :: "EquityPoint list"
  r_metrics :: PerformanceMetrics
  r_startDate :: int
  r_endDate :: int
  r_candleCount :: nat

record BacktestEngine =
  e_config :: BacktestConfig
  e_candles :: "Candle list"
  e_currentIndex :: nat
  e_position :: "Position option"
  e_trades :: "Trade list"
  e_equity :: jsnum
  e_equityCurve :: "EquityPoint list"
  e_tradeIdCounter :: nat

definition new_BacktestEngine :: "BacktestConfig \<Rightarrow> BacktestEngine" where
  "new_BacktestEngine cfg =
     \<lparr> e_config = cfg, e_candles = [], e_currentIndex = 0, e_position = None, e_trades = [],
       e_equity = initialCapital cfg, e_equityCurve = [], e_tradeIdCounter = 0 \<rparr>"

text \<open>Decimal rendering of the counter in the template string \<^verbatim>\<open>`pos-${n}`\<close>.\<close>

fun string_of_nat :: "nat \<Rightarrow> string" where
  "string_of_nat n =
     (if n < 10 then [char_of (48 + n)]
      else string_of_nat (n div 10) @ [char_of (48 + n mod 10)])"

declare string_of_nat.simps [simp del]

definition getHistoricalCandles :: "BacktestEngine \<Rightarrow> Candle list" where
  "getHistoricalCandles e = take (e_currentIndex e + 1) (e_candles e)"

definition openPosition ::
  "BacktestEngine \<Rightarrow> TradeDirection \<Rightarrow> Candle \<Rightarrow> Signal \<Rightarrow> BacktestEngine" where
  "openPosition e direction candle signal =
     (let maxSize = js_mul (js_mul (e_equity e) (maxPositionSize (e_config e)))
                      (leverage (e_config e));
          sz = (case s_size signal of
                  None \<Rightarrow> maxSize
                | Some v \<Rightarrow> if truthy (Some v) then js_min v maxSize else maxSize);
          slip = js_mul (slippage (e_config e)) (Num (1 / 100));
          entryPrice = (if direction = Long then js_add (close candle) slip
                        else js_sub (close candle) slip);
          counter = e_tradeIdCounter e + 1
      in e\<lparr> e_tradeIdCounter := counter,
            e_position := Some \<lparr> p_id = ''pos-'' @ string_of_nat counter,
                                 p_direction = direction,
                                 p_entryTime = timestamp candle,
                                 p_entryPrice = entryPrice,
                                 p_size = sz,
                                 p_stopLoss = s_stopLoss signal,
                                 p_takeProfit = s_takeProfit signal \<rparr> \<rparr>)"

text \<open>The \<^verbatim>\<open>reason\<close> argument is accepted and not stored: \<^verbatim>\<open>Trade\<close> has no field for it.\<close>

definition closePosition ::
  "BacktestEngine \<Rightarrow> jsnum \<Rightarrow> int \<Rightarrow> string \<Rightarrow> BacktestEngine" where
  "closePosition e exitPrice exitTime reason =
     (case e_position e of
        None \<Rightarrow> e
      | Some p \<Rightarrow>
          let slip = js_mul (slippage (e_config e)) (Num (1 / 100));
              adjustedExitPrice = (if p_direction p = Long then js_sub exitPrice slip
                                   else js_add exitPrice slip);
              priceDiff = (if p_direction p = Long then js_sub adjustedExitPrice (p_entryPrice p)
                           else js_sub (p_entryPrice p) adjustedExitPrice);
              grossPnl = js_mul priceDiff (js_div (p_size p) (p_entryPrice p));
              comm = js_mul (js_mul (p_size p) (commission (e_config e))) (Num 2);
              netPnl = js_sub grossPnl comm;
              pnlPercent = js_mul (js_div netPnl (initialCapital (e_config e))) (Num 100);
              trade = \<lparr> t_id = p_id p,
                        t_entryTime = p_entryTime p,
                        t_exitTime = Some exitTime,
                        t_entryPrice = p_entryPrice p,
                        t_exitPrice = Some adjustedExitPrice,
                        t_direction = p_direction p,
                        t_size = p_size p,
                        t_pnl = Some netPnl,
                        t_pnlPercent = Some pnlPercent,
                        t_stopLoss = p_stopLoss p,
                        t_takeProfit = p_takeProfit p,
                        t_commission = comm \<rparr>
          in e\<lparr> e_trades := e_trades e @ [trade],
                e_equity := js_add (e_equity e) netPnl,
                e_position := None \<rparr>)"

text \<open>
  The guard \<^verbatim>\<open>level && cond(level)\<close> of \<^verbatim>\<open>checkExitConditions\<close>: the level when it is
  truthy and the comparison holds.
\<close>

definition level_hit :: "jsnum option \<Rightarrow> (jsnum \<Rightarrow> bool) \<Rightarrow> jsnum option" where
  "level_hit level cond =
     (case level of
        None \<Rightarrow> None
      | Some v \<Rightarrow> if truthy (Some v) \<and> cond v then Some v else None)"

definition checkExitConditions :: "BacktestEngine \<Rightarrow> Candle \<Rightarrow> BacktestEngine" where
  "checkExitConditions e candle =
     (case e_position e of
        None \<Rightarrow> e
      | Some p \<Rightarrow>
          if p_direction p = Long then
            (case level_hit (p_stopLoss p) (\<lambda>sl. js_le (low candle) sl) of
               Some sl \<Rightarrow> closePosition e sl (timestamp candle) ''Stop loss hit''
             | None \<Rightarrow>
                 (case level_hit (p_takeProfit p) (\<lambda>tp. js_ge (high candle) tp) of
                    Some tp \<Rightarrow> closePosition e tp (timestamp candle) ''Take profit hit''
                  | None \<Rightarrow> e))
          else
            (case level_hit (p_stopLoss p) (\<lambda>sl. js_ge (high candle) sl) of
               Some sl \<Rightarrow> closePosition e sl (timestamp candle) ''Stop loss hit''
             | None \<Rightarrow>
                 (case level_hit (p_takeProfit p) (\<lambda>tp. js_le (low candle) tp) of
                    Some tp \<Rightarrow> closePosition e tp (timestamp candle) ''Take profit hit''
                  | None \<Rightarrow> e)))"

definition is_direction :: "Position option \<Rightarrow> TradeDirection \<Rightarrow> bool" where
  "is_direction pos d = (case pos of None \<Rightarrow> False | Some p \<Rightarrow> p_direction p = d)"

definition executeSignal :: "BacktestEngine \<Rightarrow> Signal \<Rightarrow> Candle \<Rightarrow> BacktestEngine" where
  "executeSignal e signal candle =
     (case s_type signal of
        Buy \<Rightarrow>
          (let e1 = (if is_direction (e_position e) Short
                     then closePosition e (close candle) (timestamp candle) ''Reverse to long''
                     else e)
           in if e_position e1 = None then openPosition e1 Long candle signal else e1)
      | Sell \<Rightarrow>
          (let e1 = (if is_direction (e_position e) Long
                     then closePosition e (close candle) (timestamp candle) ''Reverse to short''
                     else e)
           in if e_position e1 = None then openPosition e1 Short candle signal else e1)
      | Close \<Rightarrow>
          (if e_position e \<noteq> None
           then closePosition e (close candle) (timestamp candle)
                  (case s_reason signal of
                     None \<Rightarrow> ''Signal close''
                   | Some r \<Rightarrow> if r = [] then ''Signal close'' else r)
           else e))"

definition updateEquityCurve :: "BacktestEngine \<Rightarrow> Candle \<Rightarrow> BacktestEngine" where
  "updateEquityCurve e candle =
     (let currentEquity =
            (case e_position e of
               None \<Rightarrow> e_equity e
             | Some p \<Rightarrow>
                 let priceDiff = (if p_direction p = Long
                                  then js_sub (close candle) (p_entryPrice p)
                                  else js_sub (p_entryPrice p) (close candle));
                     unrealizedPnl = js_mul priceDiff (js_div (p_size p) (p_entryPrice p))
                 in js_add (e_equity e) unrealizedPnl)
      in e\<lparr> e_equityCurve :=
              e_equityCurve e @ [\<lparr> ep_timestamp = timestamp candle, ep_equity = currentEquity \<rparr>] \<rparr>)"

text \<open>One iteration of the candle loop of \<^verbatim>\<open>run\<close>, at index \<open>i\<close>.\<close>

definition processCandle ::
  "'s Strategy \<Rightarrow> BacktestEngine \<times> 's \<Rightarrow> nat \<Rightarrow> BacktestEngine \<times> 's" where
  "processCandle strategy es i =
     (let e0 = (fst es)\<lparr> e_currentIndex := i \<rparr>;
          candle = e_candles e0 ! i;
          e1 = checkExitConditions e0 candle;
          (signal, s') = st_onCandle strategy (snd es) i (getHistoricalCandles e1) (e_position e1);
          e2 = (case signal of None \<Rightarrow> e1 | Some sg \<Rightarrow> executeSignal e1 sg candle)
      in (updateEquityCurve e2 candle, s'))"

text \<open>The block under \<^verbatim>\<open>// Reset state\<close> at the entry of \<^verbatim>\<open>run\<close>.\<close>

definition resetState :: "BacktestEngine \<Rightarrow> Candle list \<Rightarrow> BacktestEngine" where
  "resetState e candles =
     e\<lparr> e_candles := candles, e_currentIndex := 0, e_position := None, e_trades := [],
        e_equity := initialCapital (e_config e), e_equityCurve := [], e_tradeIdCounter := 0 \<rparr>"

definition run ::
  "BacktestEngine \<Rightarrow> Candle list \<Rightarrow> 's Strategy \<Rightarrow> error + (BacktestResult \<times> BacktestEngine)" where
  "run e candles strategy =
     (if length candles = 0 then Inl NoCandleData
      else
        let e0 = resetState e candles;
            s0 = st_init strategy candles (e_config e);
            (e1, s1) = foldl (processCandle strategy) (e0, s0) [0..<length candles];
            e2 = e1\<lparr> e_currentIndex := length candles \<rparr>;
            e3 = (if e_position e2 \<noteq> None
                  then closePosition e2 (close (last candles)) (timestamp (last candles))
                         ''End of backtest''
                  else e2);
            metrics = calculateMetrics (e_trades e3) (e_equityCurve e3)
                        (initialCapital (e_config e3))
                        (timestamp (hd candles)) (timestamp (last candles))
        in Inr (\<lparr> r_strategy = st_name strategy,
                   r_params = st_params strategy,
                   r_config = e_config e3,
                   r_trades = e_trades e3,
                   r_equityCurve = e_equityCurve e3,
                   r_metrics = metrics,
                   r_startDate = timestamp (hd candles),
                   r_endDate = timestamp (last candles),
                   r_candleCount = length candles \<rparr>, e3))"

text \<open>\<^verbatim>\<open>runBacktest\<close>: a fresh engine for one run.\<close>

definition runBacktest ::
  "Candle list \<Rightarrow> 's Strategy \<Rightarrow> BacktestConfig \<Rightarrow> error + (BacktestResult \<times> BacktestEngine)" where
  "runBacktest candles strategy cfg = run (new_BacktestEngine cfg) candles strategy"

text \<open>
  The engine instance after a call of \<^verbatim>\<open>run\<close>: the exception for an empty candle list is
  thrown before any field is written.
\<close>

definition engine_after ::
  "BacktestEngine \<Rightarrow> error + (BacktestResult \<times> BacktestEngine) \<Rightarrow> BacktestEngine" where
  "engine_after e x = (case x of Inl _ \<Rightarrow> e | Inr re \<Rightarrow> snd re)"

text \<open>The result of a run that returned, dropping the engine instance.\<close>

definition result_of :: "error + (BacktestResult \<times> BacktestEngine) \<Rightarrow> BacktestResult option" where
  "result_of x = (case x of Inl _ \<Rightarrow> None | Inr re \<Rightarrow> Some (fst re))"

section \<open>Indicator library (strategy-base.ts)\<close>

text \<open>
  Reading an array: an index outside the array reads \<^verbatim>\<open>undefined\<close>, which every use below
  adds to or compares with a number, where it behaves as NaN. The period is an integer.
\<close>

definition js_at :: "jsnum list \<Rightarrow> int \<Rightarrow> jsnum" where
  "js_at xs k = (if 0 \<le> k \<and> k < int (length xs) then xs ! nat k else NaN)"

text \<open>\<^verbatim>\<open>let sum = 0; for (let j = 0; j < period; j++) sum += data[i - j];\<close>\<close>

definition window_sum :: "jsnum list \<Rightarrow> int \<Rightarrow> int \<Rightarrow> jsnum" where
  "window_sum data period i =
     foldl (\<lambda>sum j. js_add sum (js_at data (i - int j))) (Num 0) [0..<nat period]"

definition sma :: "jsnum list \<Rightarrow> int \<Rightarrow> jsnum list" where
  "sma data period =
     map (\<lambda>i. if int i < period - 1 then NaN
              else js_div (window_sum data period (int i)) (Num (real_of_int period)))
       [0..<length data]"

text \<open>\<^verbatim>\<open>let sum = 0; for (let j = 0; j <= i; j++) sum += data[j];\<close>\<close>

definition prefix_sum :: "jsnum list \<Rightarrow> nat \<Rightarrow> jsnum" where
  "prefix_sum data i = foldl (\<lambda>sum j. js_add sum (js_at data (int j))) (Num 0) [0..<i + 1]"

text \<open>One iteration of the loop of \<^verbatim>\<open>ema\<close>: the value pushed at index \<open>i\<close>.\<close>

definition emaStep :: "jsnum list \<Rightarrow> int \<Rightarrow> jsnum list \<Rightarrow> nat \<Rightarrow> jsnum list" where
  "emaStep data period result i =
     (let multiplier = js_div (Num 2) (Num (real_of_int (period + 1))) in
      result @
      [if i = 0 then js_at data 0
       else if int i < period - 1 then js_div (prefix_sum data i) (Num (real (i + 1)))
       else if int i = period - 1
         then js_div (window_sum data period (int i)) (Num (real_of_int period))
       else js_add (js_mul (js_sub (js_at data (int i)) (js_at result (int i - 1))) multiplier)
              (js_at result (int i - 1))])"





section \<open>Grid search optimizer (optimizer/grid-search.ts)\<close>

record OptimizationRange =
  rng_min :: jsnum
  rng_max :: jsnum
  rng_step :: jsnum

text \<open>
  \<^verbatim>\<open>paramRanges\<close> is an object: its keys are distinct and \<^verbatim>\<open>Object.keys\<close> lists them in
  insertion order, so it is an association list. \<^verbatim>\<open>metric\<close>, a key of
  \<^verbatim>\<open>PerformanceMetrics\<close>, is the field selector it names.
\<close>

record OptimizationConfig =
  paramRanges :: "(string \<times> OptimizationRange) list"
  metric :: "PerformanceMetrics \<Rightarrow> jsnum"
  maximize :: bool

text \<open>
  The arithmetic of this class decides how many combinations are generated and counted, so
  its definitions take the rounding \<open>rd\<close> and round every arithmetic result with it.
\<close>

text \<open>\<^verbatim>\<open>Math.round(x)\<close> rounds to the nearest integer, halves up.\<close>

fun js_round :: "jsnum \<Rightarrow> jsnum" where
  "js_round (Num a) = Num (of_int \<lfloor>a + 1 / 2\<rfloor>)"
| "js_round x = x"

text \<open>\<^verbatim>\<open>Math.round(value * 1000) / 1000\<close>\<close>

definition roundedValue :: "(real \<Rightarrow> real) \<Rightarrow> jsnum \<Rightarrow> jsnum" where
  "roundedValue rd v =
     js_rd rd (js_div (js_round (js_rd rd (js_mul v (Num 1000)))) (Num 1000))"

text \<open>
  The values that \<^verbatim>\<open>for (let value = range.min; value <= range.max; value += range.step)\<close>
  visits, in order. The loop need not end (a step of 0, a maximum of Infinity): then there
  is no list.
\<close>

partial_function (option) range_values ::
  "(real \<Rightarrow> real) \<Rightarrow> jsnum \<Rightarrow> jsnum \<Rightarrow> jsnum \<Rightarrow> jsnum list option" where
  "range_values rd v mx step =
     (if js_le v mx
      then Option.bind (range_values rd (js_rd rd (js_add v step)) mx step)
             (\<lambda>rest. Some (v # rest))
      else Some [])"

text \<open>Object spread \<^verbatim>\<open>{ ...a, ...b }\<close>: the entries of \<open>b\<close> written over \<open>a\<close> in order.\<close>

definition spread :: "StrategyParams \<Rightarrow> StrategyParams \<Rightarrow> StrategyParams" where
  "spread a b = foldl (\<lambda>acc kv. AList.update (fst kv) (snd kv) acc) a b"

text \<open>
  \<^verbatim>\<open>generateRecursive(index, current)\<close>, with the keys from \<open>index\<close> on as the first list
  argument; the result is what the call appends to \<^verbatim>\<open>combinations\<close>.
\<close>

fun generateRecursive ::
  "(real \<Rightarrow> real) \<Rightarrow> (string \<times> OptimizationRange) list \<Rightarrow> StrategyParams \<Rightarrow> StrategyParams
     \<Rightarrow> StrategyParams list option" where
  "generateRecursive rd [] baseParams current = Some [spread baseParams current]"
| "generateRecursive rd ((key, rng) # rest) baseParams current =
     (case range_values rd (rng_min rng) (rng_max rng) (rng_step rng) of
        None \<Rightarrow> None
      | Some vs \<Rightarrow>
          map_option concat
            (those (map (\<lambda>v. generateRecursive rd rest baseParams
                                (AList.update key (PNum (roundedValue rd v)) current)) vs)))"

definition generateCombinations ::
  "(real \<Rightarrow> real) \<Rightarrow> OptimizationConfig \<Rightarrow> StrategyParams \<Rightarrow> StrategyParams list option" where
  "generateCombinations rd cfg baseParams = generateRecursive rd (paramRanges cfg) baseParams []"

definition getTotalCombinations :: "(real \<Rightarrow> real) \<Rightarrow> OptimizationConfig \<Rightarrow> jsnum" where
  "getTotalCombinations rd cfg =
     foldl (\<lambda>total rng.
              let steps = js_rd rd (js_add
                            (js_floor (js_rd rd (js_div (js_rd rd (js_sub (rng_max rng) (rng_min rng)))
                                                  (rng_step rng))))
                            (Num 1))
              in js_rd rd (js_mul total steps))
       (Num 1) (map snd (paramRanges cfg))"

record GridSearchOptimizer =
  gs_candles :: "Candle list"
  gs_backtestConfig :: BacktestConfig
  gs_optimizationConfig :: OptimizationConfig

record OptimizationEntry =
  oe_params :: StrategyParams
  oe_metricValue :: jsnum
  oe_metrics :: PerformanceMetrics

text \<open>
  The variables of the loop of \<^verbatim>\<open>optimize\<close>. \<open>os_evaluated\<close> lists, in order, the
  parameter sets for which \<^verbatim>\<open>engine.run\<close> has been called, with whether the call returned
  or threw.
\<close>

record OptimizeState =
  os_engine :: BacktestEngine
  os_results :: "OptimizationEntry list"
  os_bestParams :: StrategyParams
  os_bestMetricValue :: jsnum
  os_evaluated :: "(StrategyParams \<times> bool) list"

definition optimizeStep ::
  "GridSearchOptimizer \<Rightarrow> (StrategyParams \<Rightarrow> 's Strategy) \<Rightarrow> OptimizeState \<Rightarrow> StrategyParams \<Rightarrow> OptimizeState" where
  "optimizeStep gs strategyFactory st params =
     (let strategy = strategyFactory params in
      case run (os_engine st) (gs_candles gs) strategy of
        Inl err \<Rightarrow> st\<lparr> os_evaluated := os_evaluated st @ [(params, False)] \<rparr>
      | Inr re \<Rightarrow>
          let metricValue = metric (gs_optimizationConfig gs) (r_metrics (fst re));
              isBetter = (if maximize (gs_optimizationConfig gs)
                          then js_gt metricValue (os_bestMetricValue st)
                          else js_lt metricValue (os_bestMetricValue st));
              better = (isBetter \<and> is_fin metricValue)
          in \<lparr> os_engine = snd re,
               os_results = os_results st @
                 [\<lparr> oe_params = params, oe_metricValue = metricValue,
                    oe_metrics = r_metrics (fst re) \<rparr>],
               os_bestParams = (if better then params else os_bestParams st),
               os_bestMetricValue = (if better then metricValue else os_bestMetricValue st),
               os_evaluated = os_evaluated st @ [(params, True)] \<rparr>)"

text \<open>
  \<^verbatim>\<open>optimize\<close>, up to the final in-place sort of \<^verbatim>\<open>allResults\<close> by \<^verbatim>\<open>metricValue\<close>:
  \<open>or_allResults\<close> is in evaluation order. There is no result when
  \<^verbatim>\<open>generateCombinations\<close> does not return.
\<close>

record OptimizationResult =
  or_bestParams :: StrategyParams
  or_bestMetricValue :: jsnum
  or_allResults :: "OptimizationEntry list"
  or_totalCombinations :: nat
  or_evaluated :: "(StrategyParams \<times> bool) list"

definition optimize ::
  "(real \<Rightarrow> real) \<Rightarrow> GridSearchOptimizer \<Rightarrow> (StrategyParams \<Rightarrow> 's Strategy) \<Rightarrow> StrategyParams
     \<Rightarrow> OptimizationResult option" where
  "optimize rd gs strategyFactory baseParams =
     (case generateCombinations rd (gs_optimizationConfig gs) baseParams of
        None \<Rightarrow> None
      | Some combinations \<Rightarrow>
          let st = foldl (optimizeStep gs strategyFactory)
                     \<lparr> os_engine = new_BacktestEngine (gs_backtestConfig gs),
                       os_results = [],
                       os_bestParams = baseParams,
                       os_bestMetricValue =
                         (if maximize (gs_optimizationConfig gs) then NegInf else PosInf),
                       os_evaluated = [] \<rparr>
                     combinations
          in Some \<lparr> or_bestParams = os_bestParams st,
                    or_bestMetricValue = os_bestMetricValue st,
                    or_allResults = os_results st,
                    or_totalCombinations = length combinations,
                    or_evaluated = os_evaluated st \<rparr>)"

section \<open>Walk-forward analyzer (optimizer/walk-forward.ts)\<close>

record IndexRange =
  ir_start :: int
  ir_end :: int

record WalkForwardWindow =
  w_trainStart :: int
  w_trainEnd :: int
  w_testStart :: int
  w_testEnd :: int
  trainIndex :: IndexRange
  testIndex :: IndexRange

datatype WindowType = Rolling | Anchored

text \<open>
  \<^verbatim>\<open>numWindows\<close> is an integer and \<^verbatim>\<open>trainRatio\<close> a finite number. The field
  \<^verbatim>\<open>optimizationConfig\<close> plays no part in the windows.
\<close>

record WalkForwardConfig =
  windowType :: WindowType
  trainRatio :: real
  numWindows :: int

text \<open>
  \<^verbatim>\<open>this.candles[k].timestamp\<close>: outside the array the element is \<^verbatim>\<open>undefined\<close> and reading
  its field throws a TypeError.
\<close>

definition timestamp_at :: "Candle list \<Rightarrow> int \<Rightarrow> error + int" where
  "timestamp_at cs k =
     (if 0 \<le> k \<and> k < int (length cs) then Inr (timestamp (cs ! nat k)) else Inl TypeError)"

definition make_window ::
  "Candle list \<Rightarrow> int \<Rightarrow> int \<Rightarrow> int \<Rightarrow> int \<Rightarrow> int \<Rightarrow> error + WalkForwardWindow" where
  "make_window cs tsIndex trainStart trainEnd testStart testEnd =
     (case timestamp_at cs tsIndex of Inl e \<Rightarrow> Inl e | Inr t1 \<Rightarrow>
      case timestamp_at cs trainEnd of Inl e \<Rightarrow> Inl e | Inr t2 \<Rightarrow>
      case timestamp_at cs testStart of Inl e \<Rightarrow> Inl e | Inr t3 \<Rightarrow>
      case timestamp_at cs testEnd of Inl e \<Rightarrow> Inl e | Inr t4 \<Rightarrow>
        Inr \<lparr> w_trainStart = t1, w_trainEnd = t2, w_testStart = t3, w_testEnd = t4,
              trainIndex = \<lparr> ir_start = trainStart, ir_end = trainEnd \<rparr>,
              testIndex = \<lparr> ir_start = testStart, ir_end = testEnd \<rparr> \<rparr>)"

text \<open>
  The body of the rolling loop at index \<open>i\<close>: an exception, \<^verbatim>\<open>continue\<close> (no window) or the
  window pushed.
\<close>

definition rollingWindow ::
  "Candle list \<Rightarrow> int \<Rightarrow> int \<Rightarrow> int \<Rightarrow> int \<Rightarrow> error + WalkForwardWindow option" where
  "rollingWindow cs windowSize trainSize testSize i =
     (let totalCandles = int (length cs);
          trainStart = i * windowSize;
          trainEnd = trainStart + trainSize - 1;
          testStart = trainEnd + 1;
          testEnd = min (testStart + testSize - 1) (totalCandles - 1)
      in if testEnd \<le> trainEnd then Inr None
         else map_sum id Some (make_window cs trainStart trainStart trainEnd testStart testEnd))"

text \<open>
  The body of the anchored loop at index \<open>i\<close>. The product of the two integers is exact;
  the product with the ratio and the quotient are rounded by \<open>rd\<close>.
\<close>

definition anchoredWindow ::
  "(real \<Rightarrow> real) \<Rightarrow> Candle list \<Rightarrow> real \<Rightarrow> int \<Rightarrow> int \<Rightarrow> int
     \<Rightarrow> error + WalkForwardWindow option" where
  "anchoredWindow rd cs ratio nWindows testSize i =
     (let totalCandles = int (length cs);
          trainEnd = \<lfloor>rd (rd (real_of_int ((i + 1) * totalCandles) * ratio)
                           / real_of_int nWindows)\<rfloor>;
          testStart = trainEnd + 1;
          testEnd = min (testStart + testSize - 1) (totalCandles - 1)
      in if testEnd \<le> testStart then Inr None
         else map_sum id Some (make_window cs 0 0 trainEnd testStart testEnd))"

text \<open>\<^verbatim>\<open>for (let i = 0; i < numWindows; i++)\<close> over a loop body, pushing to \<^verbatim>\<open>windows\<close>.\<close>

fun collectWindows ::
  "(int \<Rightarrow> error + WalkForwardWindow option) \<Rightarrow> int list \<Rightarrow> WalkForwardWindow list
     \<Rightarrow> error + WalkForwardWindow list" where
  "collectWindows body [] windows = Inr windows"
| "collectWindows body (i # rest) windows =
     (case body i of
        Inl e \<Rightarrow> Inl e
      | Inr None \<Rightarrow> collectWindows body rest windows
      | Inr (Some w) \<Rightarrow> collectWindows body rest (windows @ [w]))"

text \<open>
  The window and training sizes are floors of a quotient and of a product with the ratio;
  the rounding \<open>rd\<close> of these two results is a parameter, as in the grid search (the
  identity for exact arithmetic, \<open>binary64\<close> for the doubles). With \<^verbatim>\<open>numWindows \<le> 0\<close>
  neither loop runs and the sizes computed before it (a division by zero among them) are
  never used.
\<close>

definition generateWindows ::
  "(real \<Rightarrow> real) \<Rightarrow> Candle list \<Rightarrow> WalkForwardConfig \<Rightarrow> error + WalkForwardWindow list" where
  "generateWindows rd cs cfg =
     (let totalCandles = int (length cs) in
      if windowType cfg = Rolling then
        (let windowSize = \<lfloor>rd (real_of_int totalCandles / real_of_int (numWindows cfg))\<rfloor>;
             trainSize = \<lfloor>rd (real_of_int windowSize * trainRatio cfg)\<rfloor>;
             testSize = windowSize - trainSize
         in collectWindows (rollingWindow cs windowSize trainSize testSize)
              (map int [0..<nat (numWindows cfg)]) [])
      else
        (let testSize = \<lfloor>rd (real_of_int totalCandles / real_of_int (numWindows cfg))\<rfloor>
         in collectWindows (anchoredWindow rd cs (trainRatio cfg) (numWindows cfg) testSize)
              (map int [0..<nat (numWindows cfg)]) []))"

section \<open>Monte Carlo simulator (monte-carlo.ts)\<close>

record MonteCarloConfig =
  simulations :: nat
  mc_initialCapital :: jsnum
  ruinThreshold :: jsnum

definition DEFAULT_MONTE_CARLO_CONFIG :: MonteCarloConfig where
  "DEFAULT_MONTE_CARLO_CONFIG =
     \<lparr> simulations = 1000, mc_initialCapital = Num 10000, ruinThreshold = Num (1 / 2) \<rparr>"

text \<open>
  \<^verbatim>\<open>Math.random()\<close> is a stream of draws \<open>rnd k\<close>, each in \<open>[0, 1)\<close>; \<open>k\<close> counts the draws
  made so far. The loop of \<^verbatim>\<open>shuffleTrades\<close> runs \<open>i\<close> from \<open>length - 1\<close> down to 1 and
  swaps the entries at \<open>i\<close> and \<open>j = floor(random * (i + 1))\<close>.
\<close>

fun shuffleLoop :: "(nat \<Rightarrow> real) \<Rightarrow> nat \<Rightarrow> nat \<Rightarrow> 'a list \<Rightarrow> 'a list" where
  "shuffleLoop rnd k 0 shuffled = shuffled"
| "shuffleLoop rnd k (Suc i') shuffled =
     (let i = Suc i';
          j = nat \<lfloor>rnd k * real (i + 1)\<rfloor>
      in shuffleLoop rnd (k + 1) i' (shuffled[i := shuffled ! j, j := shuffled ! i]))"

definition shuffleTrades :: "(nat \<Rightarrow> real) \<Rightarrow> nat \<Rightarrow> 'a list \<Rightarrow> 'a list" where
  "shuffleTrades rnd k trades = shuffleLoop rnd k (length trades - 1) trades"

text \<open>
  The loop variables of \<^verbatim>\<open>simulateEquityCurve\<close> and one iteration of its loop. The
  per-trade returns feed only \<^verbatim>\<open>sharpeRatio\<close>, which is left out of the result.
\<close>

record SimState =
  ss_equity :: jsnum
  ss_peak :: jsnum
  ss_maxDrawdown :: jsnum
  ss_hitRuin :: bool

definition simStep :: "MonteCarloConfig \<Rightarrow> SimState \<Rightarrow> Trade \<Rightarrow> SimState" where
  "simStep cfg st trade =
     (case t_pnl trade of
        None \<Rightarrow> st
      | Some pnl \<Rightarrow>
          let equity = js_add (ss_equity st) pnl;
              peak = (if js_gt equity (ss_peak st) then equity else ss_peak st);
              drawdown = js_div (js_sub peak equity) peak;
              maxDD = (if js_gt drawdown (ss_maxDrawdown st) then drawdown
                       else ss_maxDrawdown st);
              ruin = (if js_ge drawdown (ruinThreshold cfg) then True else ss_hitRuin st)
          in \<lparr> ss_equity = equity, ss_peak = peak, ss_maxDrawdown = maxDD, ss_hitRuin = ruin \<rparr>)"

record SimResult =
  sim_totalReturn :: jsnum
  sim_maxDrawdown :: jsnum
  sim_finalEquity :: jsnum
  sim_hitRuin :: bool

definition simulateEquityCurve :: "MonteCarloConfig \<Rightarrow> Trade list \<Rightarrow> SimResult" where
  "simulateEquityCurve cfg trades =
     (let st = foldl (simStep cfg)
                 \<lparr> ss_equity = mc_initialCapital cfg, ss_peak = mc_initialCapital cfg,
                   ss_maxDrawdown = Num 0, ss_hitRuin = False \<rparr> trades
      in \<lparr> sim_totalReturn =
             js_mul (js_div (js_sub (ss_equity st) (mc_initialCapital cfg))
                       (mc_initialCapital cfg)) (Num 100),
           sim_maxDrawdown = js_mul (ss_maxDrawdown st) (Num 100),
           sim_finalEquity = ss_equity st,
           sim_hitRuin = ss_hitRuin st \<rparr>)"

text \<open>
  The \<^verbatim>\<open>results\<close> array that the loop of \<^verbatim>\<open>simulate\<close> builds: one shuffle and one replay
  per simulation, each shuffle taking \<open>length - 1\<close> draws. With no closed trade
  \<^verbatim>\<open>simulate\<close> returns \<^verbatim>\<open>emptyResult()\<close> before the loop. The percentile tables are read off
  the sorted columns of this array and are not modelled.
\<close>

definition simulate_results :: "MonteCarloConfig \<Rightarrow> (nat \<Rightarrow> real) \<Rightarrow> Trade list \<Rightarrow> SimResult list" where
  "simulate_results cfg rnd trades =
     (let closedTrades = filter (\<lambda>t. t_pnl t \<noteq> None) trades in
      if length closedTrades = 0 then []
      else map (\<lambda>sim. simulateEquityCurve cfg
                        (shuffleTrades rnd (sim * (length closedTrades - 1)) closedTrades))
             [0..<simulations cfg])"

section \<open>Notions used in the statements\<close>

text \<open>The real a finite number denotes (for stating results).\<close>

fun fin_val :: "jsnum \<Rightarrow> real" where
  "fin_val (Num a) = a"
| "fin_val _ = 0"

text \<open>
  The hypothesis of the grid-search claim on one range (finite bounds, positive step,
  \<open>min \<le> max\<close>) and the count \<open>\<lfloor>(max - min) / step\<rfloor> + 1\<close> it assigns to the range.
\<close>

definition valid_range :: "OptimizationRange \<Rightarrow> bool" where
  "valid_range r \<longleftrightarrow>
     is_fin (rng_min r) \<and> is_fin (rng_max r) \<and> is_fin (rng_step r) \<and>
     js_gt (rng_step r) (Num 0) \<and> js_le (rng_min r) (rng_max r)"

definition steps_of :: "OptimizationRange \<Rightarrow> nat" where
  "steps_of r =
     nat (\<lfloor>(fin_val (rng_max r) - fin_val (rng_min r)) / fin_val (rng_step r)\<rfloor> + 1)"

text \<open>
  A finite number that is 0 or of magnitude between \<open>1 / 10 ^ 100\<close> and \<open>10 ^ 100\<close>. Sums of
  fewer than \<open>2 ^ 32\<close> such numbers (the longest JavaScript array) and quotients of two such
  sums stay inside the range of the doubles, away from overflow to Infinity and from
  underflow to 0.
\<close>

definition moderate :: "jsnum \<Rightarrow> bool" where
  "moderate v \<longleftrightarrow>
     is_fin v \<and> (fin_val v = 0 \<or> (1 / 10 ^ 100 \<le> \<bar>fin_val v\<bar> \<and> \<bar>fin_val v\<bar> \<le> 10 ^ 100))"

text \<open>The order "window \<open>w1\<close> ends before window \<open>w2\<close> starts" on candle-index ranges.\<close>

definition window_before :: "WalkForwardWindow \<Rightarrow> WalkForwardWindow \<Rightarrow> bool" where
  "window_before w1 w2 \<longleftrightarrow> ir_end (testIndex w1) < ir_start (trainIndex w2)"

section \<open>Example inputs\<close>

definition plain_signal :: "SignalType \<Rightarrow> Signal" where
  "plain_signal ty =
     \<lparr> s_type = ty, s_price = None, s_size = None, s_stopLoss = None, s_takeProfit = None,
       s_reason = None \<rparr>"

text \<open>A strategy that answers every candle with a bare \<^verbatim>\<open>{ type: 'buy' }\<close>.\<close>

definition buyAlways :: "unit Strategy" where
  "buyAlways =
     \<lparr> st_name = ''buy-always'', st_params = [],
       st_init = (\<lambda>cs cfg. ()),
       st_onCandle = (\<lambda>s i h p. (Some (plain_signal Buy), s)) \<rparr>"

text \<open>A strategy that buys on the first candle and closes on every later one.\<close>

definition buyThenClose :: "unit Strategy" where
  "buyThenClose =
     \<lparr> st_name = ''buy-then-close'', st_params = [],
       st_init = (\<lambda>cs cfg. ()),
       st_onCandle = (\<lambda>s i h p. (Some (plain_signal (if i = 0 then Buy else Close)), s)) \<rparr>"

definition costless_config :: BacktestConfig where
  "costless_config =
     \<lparr> initialCapital = Num 10000, commission = Num 0, slippage = Num 0, leverage = Num 1,
       maxPositionSize = Num (1 / 10) \<rparr>"

definition flat_candle :: "int \<Rightarrow> real \<Rightarrow> Candle" where
  "flat_candle ts px =
     \<lparr> timestamp = ts, c_open = Num px, high = Num px, low = Num px, close = Num px,
       volume = None \<rparr>"

definition ohlc :: "int \<Rightarrow> real \<Rightarrow> real \<Rightarrow> real \<Rightarrow> real \<Rightarrow> Candle" where
  "ohlc ts o' h l c =
     \<lparr> timestamp = ts, c_open = Num o', high = Num h, low = Num l, close = Num c,
       volume = None \<rparr>"

text \<open>A position entered at 100 with size 1000, and an engine that holds it.\<close>

definition open_position :: "TradeDirection \<Rightarrow> jsnum option \<Rightarrow> jsnum option \<Rightarrow> Position" where
  "open_position d sl tp =
     \<lparr> p_id = ''pos-1'', p_direction = d, p_entryTime = 0, p_entryPrice = Num 100,
       p_size = Num 1000, p_stopLoss = sl, p_takeProfit = tp \<rparr>"

definition engine_holding :: "BacktestConfig \<Rightarrow> Position \<Rightarrow> BacktestEngine" where
  "engine_holding cfg p =
     (new_BacktestEngine cfg)\<lparr> e_position := Some p, e_tradeIdCounter := 1 \<rparr>"

text \<open>A closed trade with the given \<^verbatim>\<open>pnl\<close>.\<close>

definition closed_trade :: "real \<Rightarrow> Trade" where
  "closed_trade x =
     \<lparr> t_id = ''pos-1'', t_entryTime = 0, t_exitTime = Some 60000, t_entryPrice = Num 100,
       t_exitPrice = Some (Num 100), t_direction = Long, t_size = Num 1000,
       t_pnl = Some (Num x), t_pnlPercent = Some (Num (x / 100)), t_stopLoss = None,
       t_takeProfit = None, t_commission = Num 0 \<rparr>"

text \<open>A single simulation on the default capital, and a generator that always draws 1/4.\<close>

definition mc_single :: MonteCarloConfig where
  "mc_single = \<lparr> simulations = 1, mc_initialCapital = Num 10000, ruinThreshold = Num (1 / 2) \<rparr>"

definition quarter_draws :: "nat \<Rightarrow> real" where
  "quarter_draws k = 1 / 4"

text \<open>Two ranges, 5..15 by 5 and 20..40 by 10, over one flat candle.\<close>

definition num_range :: "real \<Rightarrow> real \<Rightarrow> real \<Rightarrow> OptimizationRange" where
  "num_range a b s = \<lparr> rng_min = Num a, rng_max = Num b, rng_step = Num s \<rparr>"

definition grid_config :: OptimizationConfig where
  "grid_config =
     \<lparr> paramRanges = [(''fastPeriod'', num_range 5 15 5), (''slowPeriod'', num_range 20 40 10)],
       metric = totalReturn, maximize = True \<rparr>"

definition grid_optimizer :: GridSearchOptimizer where
  "grid_optimizer =
     \<lparr> gs_candles = [flat_candle 60000 100], gs_backtestConfig = DEFAULT_BACKTEST_CONFIG,
       gs_optimizationConfig = grid_config \<rparr>"

text \<open>
  One range with a fractional step: 1 to 2 by 0.1, the three numbers as the doubles that
  the literals \<^verbatim>\<open>1\<close>, \<^verbatim>\<open>2\<close> and \<^verbatim>\<open>0.1\<close> denote.
\<close>

definition fractional_config :: OptimizationConfig where
  "fractional_config =
     \<lparr> paramRanges =
         [(''atrMultiplier'',
           \<lparr> rng_min = Num 1, rng_max = Num 2, rng_step = Num (binary64 (1 / 10)) \<rparr>)],
       metric = totalReturn, maximize = True \<rparr>"

definition fractional_optimizer :: GridSearchOptimizer where
  "fractional_optimizer =
     \<lparr> gs_candles = [flat_candle 60000 100], gs_backtestConfig = DEFAULT_BACKTEST_CONFIG,
       gs_optimizationConfig = fractional_config \<rparr>"

text \<open>Twenty one-minute candles, split into three windows with 70 percent training.\<close>

definition twenty_candles :: "Candle list" where
  "twenty_candles = map (\<lambda>k. flat_candle (int k * 60000) 100) [0..<20]"

definition walk_config :: "WindowType \<Rightarrow> WalkForwardConfig" where
  "walk_config ty = \<lparr> windowType = ty, trainRatio = 7 / 10, numWindows = 3 \<rparr>"

section \<open>Verified properties\<close>

subsection \<open>Accounting identity\<close>

text \<open>
  C1. The claim: after \<^verbatim>\<open>run\<close>, the sum of \<^verbatim>\<open>pnl\<close> over the returned trades equals the
  last equity-curve point minus \<^verbatim>\<open>initialCapital\<close>, the \<^verbatim>\<open>totalReturn\<close> computed by
  \<^verbatim>\<open>calculateMetrics\<close>. On one candle at price 100, the default configuration and a strategy
  that buys, the position is still open after the loop and is closed by the end-of-data
  branch, which appends no equity point: the trades sum to about -22.00 (exit slippage and
  the commission of 20 included) while the last equity point minus the capital, and with
  it \<^verbatim>\<open>totalReturn\<close>, is about -1.00.
\<close>

theorem C1_end_of_data_close_missing_from_equity_curve:
  "map_option
     (\<lambda>r. (sum_pnl (r_trades r),
           js_sub (finalEquity (r_equityCurve r) (initialCapital (r_config r)))
             (initialCapital (r_config r)),
           totalReturn (r_metrics r)))
     (result_of (runBacktest [flat_candle 60000 100] buyAlways DEFAULT_BACKTEST_CONFIG))
   = Some (Num (- (2200020 / 100001)), Num (- (100000 / 100001)), Num (- (100000 / 100001)))"
  by code_simp

subsection \<open>Engine state does not survive a call of run\<close>

lemma closePosition_config [simp]: "e_config (closePosition e px t r) = e_config e"
  by (simp add: closePosition_def Let_def split: option.split)

lemma openPosition_config [simp]: "e_config (openPosition e d c sg) = e_config e"
  by (simp add: openPosition_def Let_def)

lemma checkExitConditions_config [simp]: "e_config (checkExitConditions e c) = e_config e"
  by (simp add: checkExitConditions_def split: option.split)

lemma executeSignal_config [simp]: "e_config (executeSignal e sg c) = e_config e"
  by (simp add: executeSignal_def Let_def split: SignalType.split)

lemma updateEquityCurve_config [simp]: "e_config (updateEquityCurve e c) = e_config e"
  by (simp add: updateEquityCurve_def Let_def)

lemma processCandle_config [simp]: "e_config (fst (processCandle s es i)) = e_config (fst es)"
  by (simp add: processCandle_def Let_def split: prod.split option.split)

lemma foldl_processCandle_config:
  "e_config (fst (foldl (processCandle s) es is)) = e_config (fst es)"
  by (induction "is" arbitrary: es) simp_all

lemma resetState_config [simp]: "e_config (resetState e cs) = e_config e"
  by (simp add: resetState_def)

lemma resetState_cong: "e_config e = e_config e2 \<Longrightarrow> resetState e cs = resetState e2 cs"
  by (cases e, cases e2) (simp add: resetState_def)

lemma run_depends_on_config:
  assumes "e_config e = e_config e2"
  shows "run e cs s = run e2 cs s"
  using assms resetState_cong[OF assms, of cs] by (simp add: run_def)

lemma run_config:
  "run e cs s = Inr (r, e') \<Longrightarrow> e_config e' = e_config e"
  using foldl_processCandle_config
          [of s "(resetState e cs, st_init s cs (e_config e))" "[0..<length cs]"]
  by (auto simp add: run_def Let_def split: if_splits prod.splits)

lemma run_isl: "isl (run e cs s) = (cs = [])"
  by (simp add: run_def Let_def split: prod.split)

text \<open>
  C3. A call of \<^verbatim>\<open>run\<close> on an engine instance in any state returns what a freshly
  constructed engine with the same configuration returns, and a second call on the same
  instance (with an equal strategy instance) returns what the first call returned, result
  and final engine fields alike: position, trades, equity curve and trade-id counter are
  rewritten at entry and only the configuration is read from the instance. The call throws
  exactly when the candle list is empty, before anything is written.
\<close>

theorem C3_run_independent_of_previous_state:
  "run (engine_after e (run e cs s)) cs s = run e cs s
   \<and> run e cs s = runBacktest cs s (e_config e)
   \<and> isl (run e cs s) = (cs = [])"
proof -
  have "e_config (engine_after e (run e cs s)) = e_config e"
    by (cases "run e cs s") (auto simp: engine_after_def dest: run_config)
  then have "run (engine_after e (run e cs s)) cs s = run e cs s"
    by (rule run_depends_on_config)
  moreover have "run e cs s = runBacktest cs s (e_config e)"
    unfolding runBacktest_def by (rule run_depends_on_config) (simp add: new_BacktestEngine_def)
  ultimately show ?thesis using run_isl by blast
qed

subsection \<open>Exit check\<close>

lemma level_hit_zero: "level_hit (Some (Num 0)) cond = None"
  by (simp add: level_hit_def)

lemma level_hit_Some:
  "level_hit lvl cond = Some v \<longleftrightarrow> lvl = Some v \<and> truthy (Some v) \<and> cond v"
  by (auto simp: level_hit_def split: option.splits)

lemma level_hit_None:
  "level_hit lvl cond = None \<longleftrightarrow> (\<forall>v. lvl = Some v \<longrightarrow> \<not> (truthy (Some v) \<and> cond v))"
  by (auto simp: level_hit_def split: option.splits)

lemma closePosition_Some:
  "e_position e = Some p \<Longrightarrow>
   e_position (closePosition e x t r) = None \<and>
   (\<exists>tr. e_trades (closePosition e x t r) = e_trades e @ [tr] \<and>
      t_exitPrice tr = Some (if p_direction p = Long
                             then js_sub x (js_mul (slippage (e_config e)) (Num (1 / 100)))
                             else js_add x (js_mul (slippage (e_config e)) (Num (1 / 100)))) \<and>
      t_exitTime tr = Some t \<and> t_id tr = p_id p)"
  by (simp add: closePosition_def Let_def)

lemma checkExitConditions_candles [simp]: "e_candles (checkExitConditions e c) = e_candles e"
  by (simp add: checkExitConditions_def closePosition_def Let_def split: option.split)

lemma checkExitConditions_index [simp]:
  "e_currentIndex (checkExitConditions e c) = e_currentIndex e"
  by (simp add: checkExitConditions_def closePosition_def Let_def split: option.split)

lemma processCandle_unfold:
  "processCandle strategy (e, st) i =
     (let e1 = checkExitConditions (e\<lparr> e_currentIndex := i \<rparr>) (e_candles e ! i);
          r = st_onCandle strategy st i (take (i + 1) (e_candles e)) (e_position e1)
      in (updateEquityCurve
            (case fst r of None \<Rightarrow> e1 | Some sg \<Rightarrow> executeSignal e1 sg (e_candles e ! i))
            (e_candles e ! i),
          snd r))"
  by (simp add: processCandle_def Let_def getHistoricalCandles_def split: prod.split option.split)

lemma closePosition_trades_extend:
  "\<exists>more. e_trades (closePosition e x t r) = e_trades e @ more"
  by (cases "e_position e") (simp_all add: closePosition_def Let_def)

lemma openPosition_trades [simp]: "e_trades (openPosition e d c sg) = e_trades e"
  by (simp add: openPosition_def Let_def)

lemma updateEquityCurve_trades [simp]: "e_trades (updateEquityCurve e c) = e_trades e"
  by (simp add: updateEquityCurve_def Let_def)

lemma executeSignal_trades_extend:
  "\<exists>more. e_trades (executeSignal e sg c) = e_trades e @ more"
proof (cases "s_type sg")
  case Buy
  then show ?thesis
    using closePosition_trades_extend[of e "close c" "timestamp c" "''Reverse to long''"]
    by (auto simp: executeSignal_def Let_def)
next
  case Sell
  then show ?thesis
    using closePosition_trades_extend[of e "close c" "timestamp c" "''Reverse to short''"]
    by (auto simp: executeSignal_def Let_def)
next
  case Close
  then show ?thesis
    using closePosition_trades_extend[of e "close c" "timestamp c"]
    by (auto simp: executeSignal_def)
qed

lemma processCandle_trades_extend:
  "\<exists>more. e_trades (fst (processCandle strategy (e, st) i)) =
           e_trades (checkExitConditions (e\<lparr> e_currentIndex := i \<rparr>) (e_candles e ! i)) @ more"
  using executeSignal_trades_extend
  by (auto simp: processCandle_unfold Let_def split: option.split)

lemma checkExitConditions_trades_extend:
  "\<exists>more. e_trades (checkExitConditions e c) = e_trades e @ more"
  using closePosition_trades_extend[of e]
  by (auto simp: checkExitConditions_def split: option.split)

lemma foldl_processCandle_trades_extend:
  "\<exists>more. e_trades (fst (foldl (processCandle strategy) es is)) = e_trades (fst es) @ more"
proof (induction "is" arbitrary: es)
  case Nil
  then show ?case by simp
next
  case (Cons i "is")
  obtain e st where es: "es = (e, st)" by (cases es)
  from processCandle_trades_extend[of strategy e st i]
       checkExitConditions_trades_extend[of "e\<lparr> e_currentIndex := i \<rparr>" "e_candles e ! i"]
  obtain m1 where "e_trades (fst (processCandle strategy es i)) = e_trades (fst es) @ m1"
    unfolding es by auto
  moreover from Cons.IH[of "processCandle strategy es i"] obtain m2 where
    "e_trades (fst (foldl (processCandle strategy) (processCandle strategy es i) is))
       = e_trades (fst (processCandle strategy es i)) @ m2"
    by blast
  ultimately show ?case by simp
qed

lemma run_trades_extend:
  assumes "run e0 cs strategy = Inr (r, e')" and "k \<le> length cs"
  shows "\<exists>more. r_trades r =
           e_trades (fst (foldl (processCandle strategy)
                            (resetState e0 cs, st_init strategy cs (e_config e0)) [0..<k])) @ more"
proof -
  let ?init = "(resetState e0 cs, st_init strategy cs (e_config e0))"
  let ?mid = "foldl (processCandle strategy) ?init [0..<k]"
  let ?all = "foldl (processCandle strategy) ?init [0..<length cs]"
  have "[0..<length cs] = [0..<k] @ [k..<length cs]"
    using assms(2) by (metis le0 upt_add_eq_append le_add_diff_inverse)
  then have "?all = foldl (processCandle strategy) ?mid [k..<length cs]"
    by (metis foldl_append)
  with foldl_processCandle_trades_extend[of strategy ?mid "[k..<length cs]"]
  obtain m1 where m1: "e_trades (fst ?all) = e_trades (fst ?mid) @ m1"
    by auto
  from closePosition_trades_extend
         [of "(fst ?all)\<lparr> e_currentIndex := length cs \<rparr>" "close (last cs)" "timestamp (last cs)"
             "''End of backtest''"]
  obtain m2 where
    m2: "e_trades (closePosition ((fst ?all)\<lparr> e_currentIndex := length cs \<rparr>) (close (last cs))
                     (timestamp (last cs)) ''End of backtest'') = e_trades (fst ?all) @ m2"
    by auto
  from assms(1) have "r_trades r = e_trades (fst ?all) \<or> r_trades r = e_trades (fst ?all) @ m2"
    using m2 by (auto simp: run_def Let_def split: if_splits prod.splits)
  with m1 show ?thesis by auto
qed

lemma exit_in_iteration:
  assumes pos: "e_position e = Some p"
    and chk: "checkExitConditions (e\<lparr> e_currentIndex := i \<rparr>) (e_candles e ! i) =
              closePosition (e\<lparr> e_currentIndex := i \<rparr>) x (timestamp (e_candles e ! i)) r"
  shows "(\<exists>tr more.
            e_trades (fst (processCandle strategy (e, st) i)) = e_trades e @ tr # more \<and>
            t_id tr = p_id p \<and> t_exitTime tr = Some (timestamp (e_candles e ! i)) \<and>
            t_exitPrice tr =
              Some (if p_direction p = Long
                    then js_sub x (js_mul (slippage (e_config e)) (Num (1 / 100)))
                    else js_add x (js_mul (slippage (e_config e)) (Num (1 / 100)))))
       \<and> snd (processCandle strategy (e, st) i) =
           snd (st_onCandle strategy st i (take (i + 1) (e_candles e)) None)"
proof -
  let ?e0 = "e\<lparr> e_currentIndex := i \<rparr>"
  let ?c = "e_candles e ! i"
  have pos0: "e_position ?e0 = Some p" using pos by simp
  from closePosition_Some[OF pos0, of x "timestamp ?c" r] obtain tr where
    tr: "e_position (closePosition ?e0 x (timestamp ?c) r) = None"
        "e_trades (closePosition ?e0 x (timestamp ?c) r) = e_trades e @ [tr]"
        "t_exitPrice tr =
           Some (if p_direction p = Long
                 then js_sub x (js_mul (slippage (e_config e)) (Num (1 / 100)))
                 else js_add x (js_mul (slippage (e_config e)) (Num (1 / 100))))"
        "t_exitTime tr = Some (timestamp ?c)" "t_id tr = p_id p"
    by auto
  from processCandle_trades_extend[of strategy e st i] obtain more where
    "e_trades (fst (processCandle strategy (e, st) i)) = e_trades e @ tr # more"
    using chk tr(2) by auto
  moreover have "snd (processCandle strategy (e, st) i) =
           snd (st_onCandle strategy st i (take (i + 1) (e_candles e)) None)"
    using chk tr(1) by (simp add: processCandle_unfold Let_def)
  ultimately show ?thesis using tr(3,4,5) by blast
qed

text \<open>
  C2, as the code has it. In each iteration of the candle loop the candle is first passed
  to \<^verbatim>\<open>checkExitConditions\<close>; the strategy's \<^verbatim>\<open>onCandle\<close> receives the position that check
  leaves (none once a level has triggered), its signal is executed on the engine the check
  leaves, and the equity point is appended last. A long position's stop triggers when the
  stop is set, truthy (not 0, not NaN) and \<open>low \<le> stopLoss\<close>; otherwise its target
  triggers when it is set, truthy and \<open>high \<ge> takeProfit\<close> (short: \<open>high \<ge> stopLoss\<close>,
  then \<open>low \<le> takeProfit\<close>); with no trigger the engine is unchanged. On trigger
  \<^verbatim>\<open>closePosition\<close> is called with the level itself, not the candle close, and the trade it
  appends carries the position's id, the candle's timestamp as exit time and, as exit
  price, the level moved by the slippage offset \<open>slippage \<times> 0.01\<close> (down for a long, up
  for a short): the level itself exactly when that offset is 0. That trade is in the
  engine's trade list after the iteration whatever the strategy signals on the candle, and
  the trade list only grows through the rest of the loop and the end of \<^verbatim>\<open>run\<close>. The reason
  string does not reach the trade: \<^verbatim>\<open>closePosition\<close> returns the same engine whatever
  reason it is given.
\<close>

theorem C2_exit_check_before_strategy:
  assumes pos: "e_position e = Some p"
  shows
  "(\<forall>sl. p_stopLoss p = Some sl \<and> truthy (Some sl) \<and>
         (if p_direction p = Long then js_le (low c) sl else js_ge (high c) sl)
       \<longrightarrow> checkExitConditions e c = closePosition e sl (timestamp c) ''Stop loss hit'')
   \<and> (\<forall>tp. (\<forall>sl. p_stopLoss p = Some sl \<and> truthy (Some sl)
                 \<longrightarrow> \<not> (if p_direction p = Long then js_le (low c) sl else js_ge (high c) sl))
            \<and> p_takeProfit p = Some tp \<and> truthy (Some tp) \<and>
            (if p_direction p = Long then js_ge (high c) tp else js_le (low c) tp)
       \<longrightarrow> checkExitConditions e c = closePosition e tp (timestamp c) ''Take profit hit'')
   \<and> ((\<forall>sl. p_stopLoss p = Some sl \<and> truthy (Some sl)
                 \<longrightarrow> \<not> (if p_direction p = Long then js_le (low c) sl else js_ge (high c) sl))
        \<and> (\<forall>tp. p_takeProfit p = Some tp \<and> truthy (Some tp)
                 \<longrightarrow> \<not> (if p_direction p = Long then js_ge (high c) tp else js_le (low c) tp))
       \<longrightarrow> checkExitConditions e c = e)
   \<and> (\<forall>x t r. e_position (closePosition e x t r) = None \<and>
         (\<exists>tr. e_trades (closePosition e x t r) = e_trades e @ [tr] \<and>
            t_exitPrice tr = Some (if p_direction p = Long
                                   then js_sub x (js_mul (slippage (e_config e)) (Num (1 / 100)))
                                   else js_add x (js_mul (slippage (e_config e)) (Num (1 / 100)))) \<and>
            t_exitTime tr = Some t \<and> t_id tr = p_id p))
   \<and> (\<forall>x t r r'. closePosition e x t r = closePosition e x t r')
   \<and> (\<forall>(strategy :: 's Strategy) st i.
         processCandle strategy (e, st) i =
           (let e1 = checkExitConditions (e\<lparr> e_currentIndex := i \<rparr>) (e_candles e ! i);
                r = st_onCandle strategy st i (take (i + 1) (e_candles e)) (e_position e1)
            in (updateEquityCurve
                  (case fst r of None \<Rightarrow> e1
                   | Some sg \<Rightarrow> executeSignal e1 sg (e_candles e ! i))
                  (e_candles e ! i),
                snd r)))
   \<and> (\<forall>(strategy :: 's Strategy) st i sl.
         p_stopLoss p = Some sl \<and> truthy (Some sl) \<and>
         (if p_direction p = Long then js_le (low (e_candles e ! i)) sl
          else js_ge (high (e_candles e ! i)) sl)
       \<longrightarrow> (\<exists>tr more.
              e_trades (fst (processCandle strategy (e, st) i)) = e_trades e @ tr # more \<and>
              t_id tr = p_id p \<and> t_exitTime tr = Some (timestamp (e_candles e ! i)) \<and>
              t_exitPrice tr =
                Some (if p_direction p = Long
                      then js_sub sl (js_mul (slippage (e_config e)) (Num (1 / 100)))
                      else js_add sl (js_mul (slippage (e_config e)) (Num (1 / 100)))))
           \<and> snd (processCandle strategy (e, st) i) =
               snd (st_onCandle strategy st i (take (i + 1) (e_candles e)) None))
   \<and> (\<forall>(strategy :: 's Strategy) st i tp.
         (\<forall>sl. p_stopLoss p = Some sl \<and> truthy (Some sl)
               \<longrightarrow> \<not> (if p_direction p = Long then js_le (low (e_candles e ! i)) sl
                      else js_ge (high (e_candles e ! i)) sl))
         \<and> p_takeProfit p = Some tp \<and> truthy (Some tp) \<and>
         (if p_direction p = Long then js_ge (high (e_candles e ! i)) tp
          else js_le (low (e_candles e ! i)) tp)
       \<longrightarrow> (\<exists>tr more.
              e_trades (fst (processCandle strategy (e, st) i)) = e_trades e @ tr # more \<and>
              t_id tr = p_id p \<and> t_exitTime tr = Some (timestamp (e_candles e ! i)) \<and>
              t_exitPrice tr =
                Some (if p_direction p = Long
                      then js_sub tp (js_mul (slippage (e_config e)) (Num (1 / 100)))
                      else js_add tp (js_mul (slippage (e_config e)) (Num (1 / 100)))))
           \<and> snd (processCandle strategy (e, st) i) =
               snd (st_onCandle strategy st i (take (i + 1) (e_candles e)) None))
   \<and> (\<forall>(strategy :: 's Strategy) es is.
         \<exists>more. e_trades (fst (foldl (processCandle strategy) es is)) = e_trades (fst es) @ more)
   \<and> (\<forall>e0 cs (strategy :: 's Strategy) r e' k.
         run e0 cs strategy = Inr (r, e') \<and> k \<le> length cs
       \<longrightarrow> (\<exists>more. r_trades r =
              e_trades (fst (foldl (processCandle strategy)
                               (resetState e0 cs, st_init strategy cs (e_config e0)) [0..<k]))
              @ more))"
  (is "?c1 \<and> ?c2 \<and> ?c3 \<and> ?c4 \<and> ?c5 \<and> ?c6 \<and> ?c7 \<and> ?c8 \<and> ?c9 \<and> ?c10")
proof -
  have stop: "checkExitConditions e' c' = closePosition e' sl (timestamp c') ''Stop loss hit''"
    if "e_position e' = Some p" "p_stopLoss p = Some sl \<and> truthy (Some sl) \<and>
         (if p_direction p = Long then js_le (low c') sl else js_ge (high c') sl)"
    for e' c' sl
    using that by (auto simp: checkExitConditions_def level_hit_def split: if_splits)
  have target: "checkExitConditions e' c' = closePosition e' tp (timestamp c') ''Take profit hit''"
    if p': "e_position e' = Some p"
      and a: "(\<forall>sl. p_stopLoss p = Some sl \<and> truthy (Some sl)
                 \<longrightarrow> \<not> (if p_direction p = Long then js_le (low c') sl else js_ge (high c') sl))
            \<and> p_takeProfit p = Some tp \<and> truthy (Some tp) \<and>
            (if p_direction p = Long then js_ge (high c') tp else js_le (low c') tp)"
    for e' c' tp
  proof -
    from a have "level_hit (p_stopLoss p) (\<lambda>sl. js_le (low c') sl) = None"
      if "p_direction p = Long"
      using that by (auto simp: level_hit_None)
    moreover from a have "level_hit (p_stopLoss p) (\<lambda>sl. js_ge (high c') sl) = None"
      if "p_direction p \<noteq> Long"
      using that by (auto simp: level_hit_None)
    ultimately show ?thesis
      using p' a
      by (auto simp: checkExitConditions_def level_hit_def[of "Some tp"] split: if_splits)
  qed
  have none: "checkExitConditions e c = e"
    if a: "(\<forall>sl. p_stopLoss p = Some sl \<and> truthy (Some sl)
                 \<longrightarrow> \<not> (if p_direction p = Long then js_le (low c) sl else js_ge (high c) sl))
        \<and> (\<forall>tp. p_takeProfit p = Some tp \<and> truthy (Some tp)
                 \<longrightarrow> \<not> (if p_direction p = Long then js_ge (high c) tp else js_le (low c) tp))"
  proof -
    from a have "level_hit (p_stopLoss p) (\<lambda>sl. js_le (low c) sl) = None"
        "level_hit (p_takeProfit p) (\<lambda>tp. js_ge (high c) tp) = None" if "p_direction p = Long"
      using that by (auto simp: level_hit_None)
    moreover from a have "level_hit (p_stopLoss p) (\<lambda>sl. js_ge (high c) sl) = None"
       "level_hit (p_takeProfit p) (\<lambda>tp. js_le (low c) tp) = None" if "p_direction p \<noteq> Long"
      using that by (auto simp: level_hit_None)
    ultimately show ?thesis
      using pos by (simp add: checkExitConditions_def)
  qed
  have closed: "e_position (closePosition e x t r) = None \<and>
         (\<exists>tr. e_trades (closePosition e x t r) = e_trades e @ [tr] \<and>
            t_exitPrice tr = Some (if p_direction p = Long
                                   then js_sub x (js_mul (slippage (e_config e)) (Num (1 / 100)))
                                   else js_add x (js_mul (slippage (e_config e)) (Num (1 / 100)))) \<and>
            t_exitTime tr = Some t \<and> t_id tr = p_id p)" for x t r
    using closePosition_Some[OF pos] by blast
  have reason: "closePosition e x t r = closePosition e x t r'" for x t r r'
    by (simp add: closePosition_def)
  have pos0: "e_position (e\<lparr> e_currentIndex := i \<rparr>) = Some p" for i
    using pos by simp
  have stop_it:
    "(\<exists>tr more.
        e_trades (fst (processCandle strategy (e, st) i)) = e_trades e @ tr # more \<and>
        t_id tr = p_id p \<and> t_exitTime tr = Some (timestamp (e_candles e ! i)) \<and>
        t_exitPrice tr =
          Some (if p_direction p = Long
                then js_sub sl (js_mul (slippage (e_config e)) (Num (1 / 100)))
                else js_add sl (js_mul (slippage (e_config e)) (Num (1 / 100)))))
     \<and> snd (processCandle strategy (e, st) i) =
         snd (st_onCandle strategy st i (take (i + 1) (e_candles e)) None)"
    if "p_stopLoss p = Some sl \<and> truthy (Some sl) \<and>
         (if p_direction p = Long then js_le (low (e_candles e ! i)) sl
          else js_ge (high (e_candles e ! i)) sl)"
    for strategy :: "'s Strategy" and st i sl
    by (rule exit_in_iteration[OF pos stop[OF pos0 that]])
  have target_it:
    "(\<exists>tr more.
        e_trades (fst (processCandle strategy (e, st) i)) = e_trades e @ tr # more \<and>
        t_id tr = p_id p \<and> t_exitTime tr = Some (timestamp (e_candles e ! i)) \<and>
        t_exitPrice tr =
          Some (if p_direction p = Long
                then js_sub tp (js_mul (slippage (e_config e)) (Num (1 / 100)))
                else js_add tp (js_mul (slippage (e_config e)) (Num (1 / 100)))))
     \<and> snd (processCandle strategy (e, st) i) =
         snd (st_onCandle strategy st i (take (i + 1) (e_candles e)) None)"
    if "(\<forall>sl. p_stopLoss p = Some sl \<and> truthy (Some sl)
               \<longrightarrow> \<not> (if p_direction p = Long then js_le (low (e_candles e ! i)) sl
                      else js_ge (high (e_candles e ! i)) sl))
         \<and> p_takeProfit p = Some tp \<and> truthy (Some tp) \<and>
         (if p_direction p = Long then js_ge (high (e_candles e ! i)) tp
          else js_le (low (e_candles e ! i)) tp)"
    for strategy :: "'s Strategy" and st i tp
    by (rule exit_in_iteration[OF pos target[OF pos0 that]])
  have c1: ?c1 using stop[OF pos] by blast
  have c2: ?c2 using target[OF pos] by blast
  have c3: ?c3 using none by blast
  have c4: ?c4 using closed by blast
  have c5: ?c5 using reason by blast
  have c6: ?c6 by (intro allI) (rule processCandle_unfold)
  have c7: ?c7 by (intro allI impI) (erule stop_it)
  have c8: ?c8 by (intro allI impI) (erule target_it)
  have c9: ?c9 by (intro allI) (rule foldl_processCandle_trades_extend)
  have c10: ?c10
  proof (intro allI impI)
    fix e0 cs and strategy :: "'s Strategy" and r e' k
    assume "run e0 cs strategy = Inr (r, e') \<and> k \<le> length cs"
    then show "\<exists>more. r_trades r =
              e_trades (fst (foldl (processCandle strategy)
                               (resetState e0 cs, st_init strategy cs (e_config e0)) [0..<k]))
              @ more"
      using run_trades_extend[of e0 cs strategy r e' k] by blast
  qed
  from c1 c2 c3 c4 c5 c6 c7 c8 c9 c10 show ?thesis by (intro conjI)
qed

text \<open>
  Witness: a long position with stop 95 under the default configuration (slippage 0.1),
  on an engine whose only candle has a low of 90. The stop branch closes it at 94.999; in
  the loop iteration for that candle a strategy that answers with a buy is shown no
  position, and the stop's trade stays first in the trade list.
\<close>

theorem C2_exit_check_witness:
  "e_position (engine_holding DEFAULT_BACKTEST_CONFIG (open_position Long (Some (Num 95)) None))
     = Some (open_position Long (Some (Num 95)) None)
   \<and> js_le (low (ohlc 60000 100 101 90 96)) (Num 95)
   \<and> checkExitConditions
         (engine_holding DEFAULT_BACKTEST_CONFIG (open_position Long (Some (Num 95)) None))
         (ohlc 60000 100 101 90 96)
       = closePosition
           (engine_holding DEFAULT_BACKTEST_CONFIG (open_position Long (Some (Num 95)) None))
           (Num 95) 60000 ''Stop loss hit''
   \<and> map t_exitPrice
         (e_trades (checkExitConditions
            (engine_holding DEFAULT_BACKTEST_CONFIG (open_position Long (Some (Num 95)) None))
            (ohlc 60000 100 101 90 96)))
       = [Some (Num (94999 / 1000))]
   \<and> (\<exists>tr more.
         e_trades (fst (processCandle buyAlways
            ((engine_holding DEFAULT_BACKTEST_CONFIG (open_position Long (Some (Num 95)) None))
               \<lparr> e_candles := [ohlc 60000 100 101 90 96] \<rparr>, ()) 0)) = tr # more
         \<and> t_id tr = ''pos-1'' \<and> t_exitTime tr = Some 60000
         \<and> t_exitPrice tr = Some (Num (94999 / 1000)))"
proof -
  let ?P = "open_position Long (Some (Num 95)) None"
  let ?E = "engine_holding DEFAULT_BACKTEST_CONFIG ?P"
  let ?C = "ohlc 60000 100 101 90 96"
  let ?E1 = "?E\<lparr> e_candles := [?C] \<rparr>"
  have h: "e_position ?E = Some ?P"
    by (simp add: engine_holding_def)
  have a: "p_stopLoss ?P = Some (Num 95) \<and> truthy (Some (Num 95)) \<and>
           (if p_direction ?P = Long then js_le (low ?C) (Num 95) else js_ge (high ?C) (Num 95))"
    by (simp add: open_position_def ohlc_def)
  have t: "timestamp ?C = 60000" by (simp add: ohlc_def)
  from C2_exit_check_before_strategy[OF h, of ?C, THEN conjunct1] a t
  have c: "checkExitConditions ?E ?C = closePosition ?E (Num 95) 60000 ''Stop loss hit''"
    by simp
  have x: "map t_exitPrice (e_trades (checkExitConditions ?E ?C))
                   = [Some (Num (94999 / 1000))]"
    by code_simp
  have l: "js_le (low ?C) (Num 95)" by (simp add: ohlc_def)
  have h1: "e_position ?E1 = Some ?P"
    by (simp add: engine_holding_def)
  have a1: "p_stopLoss ?P = Some (Num 95) \<and> truthy (Some (Num 95)) \<and>
           (if p_direction ?P = Long then js_le (low (e_candles ?E1 ! 0)) (Num 95)
            else js_ge (high (e_candles ?E1 ! 0)) (Num 95))"
    by (simp add: open_position_def ohlc_def)
  have v: "e_trades ?E1 = []" "p_id ?P = ''pos-1''" "timestamp (e_candles ?E1 ! 0) = 60000"
          "(if p_direction ?P = Long
            then js_sub (Num 95) (js_mul (slippage (e_config ?E1)) (Num (1 / 100)))
            else js_add (Num 95) (js_mul (slippage (e_config ?E1)) (Num (1 / 100))))
           = Num (94999 / 1000)"
    by (simp_all add: engine_holding_def new_BacktestEngine_def open_position_def ohlc_def
          DEFAULT_BACKTEST_CONFIG_def js_sub_def)
  from C2_exit_check_before_strategy[OF h1, of ?C]
  have "\<forall>(strategy :: unit Strategy) st i sl.
         p_stopLoss ?P = Some sl \<and> truthy (Some sl) \<and>
         (if p_direction ?P = Long then js_le (low (e_candles ?E1 ! i)) sl
          else js_ge (high (e_candles ?E1 ! i)) sl)
       \<longrightarrow> (\<exists>tr more.
              e_trades (fst (processCandle strategy (?E1, st) i)) = e_trades ?E1 @ tr # more \<and>
              t_id tr = p_id ?P \<and> t_exitTime tr = Some (timestamp (e_candles ?E1 ! i)) \<and>
              t_exitPrice tr =
                Some (if p_direction ?P = Long
                      then js_sub sl (js_mul (slippage (e_config ?E1)) (Num (1 / 100)))
                      else js_add sl (js_mul (slippage (e_config ?E1)) (Num (1 / 100)))))
           \<and> snd (processCandle strategy (?E1, st) i) =
               snd (st_onCandle strategy st i (take (i + 1) (e_candles ?E1)) None)"
    by (elim conjE)
  from this[rule_format, of "Num 95" 0 buyAlways "()", OF a1, THEN conjunct1]
  have it: "\<exists>tr more.
         e_trades (fst (processCandle buyAlways (?E1, ()) 0)) = tr # more
         \<and> t_id tr = ''pos-1'' \<and> t_exitTime tr = Some 60000
         \<and> t_exitPrice tr = Some (Num (94999 / 1000))"
    unfolding v by simp
  from h l c x it show ?thesis by (intro conjI)
qed

text \<open>
  The claim as worded fails there: the stop at 95 is crossed, the trade does not exit at
  95, and closing with the reason of the stop gives the very engine, trade included, that
  closing with the reason of the target gives.
\<close>

theorem C2_exit_price_counterexample:
  "js_le (low (ohlc 60000 100 101 90 96)) (Num 95)
   \<and> map t_exitPrice
         (e_trades (checkExitConditions
            (engine_holding DEFAULT_BACKTEST_CONFIG (open_position Long (Some (Num 95)) None))
            (ohlc 60000 100 101 90 96)))
       \<noteq> [Some (Num 95)]
   \<and> closePosition
         (engine_holding DEFAULT_BACKTEST_CONFIG (open_position Long (Some (Num 95)) None))
         (Num 95) 60000 ''Stop loss hit''
       = closePosition
           (engine_holding DEFAULT_BACKTEST_CONFIG (open_position Long (Some (Num 95)) None))
           (Num 95) 60000 ''Take profit hit''"
  by code_simp

subsection \<open>A level of 0\<close>

text \<open>
  C10. When the stop of an open position (long or short) is exactly 0,
  \<^verbatim>\<open>checkExitConditions\<close> leaves the engine unchanged or closes on a truthy take-profit, never
  on the stop; when the target is exactly 0 it leaves the engine unchanged or closes on a
  truthy stop; when both are 0 the engine is unchanged whatever the candle.
\<close>

theorem C10_zero_level_never_triggers:
  assumes "e_position e = Some p"
  shows "(p_stopLoss p = Some (Num 0) \<longrightarrow>
            checkExitConditions e c = e \<or>
            (\<exists>tp. p_takeProfit p = Some tp \<and> truthy (Some tp) \<and>
               checkExitConditions e c = closePosition e tp (timestamp c) ''Take profit hit''))
       \<and> (p_takeProfit p = Some (Num 0) \<longrightarrow>
            checkExitConditions e c = e \<or>
            (\<exists>sl. p_stopLoss p = Some sl \<and> truthy (Some sl) \<and>
               checkExitConditions e c = closePosition e sl (timestamp c) ''Stop loss hit''))
       \<and> (p_stopLoss p = Some (Num 0) \<and> p_takeProfit p = Some (Num 0) \<longrightarrow>
            checkExitConditions e c = e)"
  using assms
  by (auto simp: checkExitConditions_def level_hit_zero level_hit_Some split: option.splits)

text \<open>Witness: a long position with stop 0 and a candle whose low is -1.\<close>

theorem C10_zero_level_witness:
  "e_position (engine_holding DEFAULT_BACKTEST_CONFIG (open_position Long (Some (Num 0)) None))
     = Some (open_position Long (Some (Num 0)) None)
   \<and> js_le (low (ohlc 60000 1 2 (-1) 1)) (Num 0)
   \<and> checkExitConditions
        (engine_holding DEFAULT_BACKTEST_CONFIG (open_position Long (Some (Num 0)) None))
        (ohlc 60000 1 2 (-1) 1)
      = engine_holding DEFAULT_BACKTEST_CONFIG (open_position Long (Some (Num 0)) None)"
proof -
  have h: "e_position
             (engine_holding DEFAULT_BACKTEST_CONFIG (open_position Long (Some (Num 0)) None))
           = Some (open_position Long (Some (Num 0)) None)"
    by (simp add: engine_holding_def)
  have s: "p_stopLoss (open_position Long (Some (Num 0)) None) = Some (Num 0)"
          "p_takeProfit (open_position Long (Some (Num 0)) None) = None"
    by (simp_all add: open_position_def)
  show ?thesis
    using C10_zero_level_never_triggers[OF h, of "ohlc 60000 1 2 (-1) 1"] h s
    by (simp add: ohlc_def)
qed

subsection \<open>Position size of a signal without a size\<close>

text \<open>
  C9. A signal whose size is absent or exactly 0 opens the position at the full cap
  \<open>equity \<times> maxPositionSize \<times> leverage\<close>, as \<^verbatim>\<open>openPosition\<close> computes it from the engine's
  equity at that moment: the 0 is treated as an absent size (the engine that results is the
  one that the same signal without a size field gives), so the signal's 0 is never the
  size of the position. A buy (sell) on a flat engine is exactly that \<^verbatim>\<open>openPosition\<close>; on
  an engine that holds a short (long) position it is that \<^verbatim>\<open>openPosition\<close> after the
  reversal close.
\<close>

theorem C9_missing_size_opens_at_cap:
  assumes "s_size sg = None \<or> s_size sg = Some (Num 0)"
  shows "map_option p_size (e_position (openPosition e d c sg))
           = Some (js_mul (js_mul (e_equity e) (maxPositionSize (e_config e)))
                     (leverage (e_config e)))
       \<and> openPosition e d c sg = openPosition e d c (sg\<lparr> s_size := None \<rparr>)
       \<and> (e_position e = None \<and> s_type sg = Buy
            \<longrightarrow> executeSignal e sg c = openPosition e Long c sg)
       \<and> (e_position e = None \<and> s_type sg = Sell
            \<longrightarrow> executeSignal e sg c = openPosition e Short c sg)
       \<and> (is_direction (e_position e) Short \<and> s_type sg = Buy
            \<longrightarrow> executeSignal e sg c =
                  openPosition (closePosition e (close c) (timestamp c) ''Reverse to long'')
                    Long c sg)
       \<and> (is_direction (e_position e) Long \<and> s_type sg = Sell
            \<longrightarrow> executeSignal e sg c =
                  openPosition (closePosition e (close c) (timestamp c) ''Reverse to short'')
                    Short c sg)"
proof -
  have cap: "map_option p_size (e_position (openPosition e d c sg))
           = Some (js_mul (js_mul (e_equity e) (maxPositionSize (e_config e)))
                     (leverage (e_config e)))"
    using assms by (auto simp: openPosition_def Let_def)
  have absent: "openPosition e d c sg = openPosition e d c (sg\<lparr> s_size := None \<rparr>)"
    using assms by (auto simp: openPosition_def Let_def)
  have flat: "e_position e = None \<Longrightarrow> s_type sg = Buy
                \<Longrightarrow> executeSignal e sg c = openPosition e Long c sg"
             "e_position e = None \<Longrightarrow> s_type sg = Sell
                \<Longrightarrow> executeSignal e sg c = openPosition e Short c sg"
    by (simp_all add: executeSignal_def is_direction_def Let_def)
  have rev: "is_direction (e_position e) Short \<Longrightarrow> s_type sg = Buy
                \<Longrightarrow> executeSignal e sg c =
                  openPosition (closePosition e (close c) (timestamp c) ''Reverse to long'')
                    Long c sg"
            "is_direction (e_position e) Long \<Longrightarrow> s_type sg = Sell
                \<Longrightarrow> executeSignal e sg c =
                  openPosition (closePosition e (close c) (timestamp c) ''Reverse to short'')
                    Short c sg"
    using closePosition_Some[of e]
    by (auto simp: executeSignal_def is_direction_def Let_def split: option.splits)
  from cap absent flat rev show ?thesis by blast
qed

text \<open>
  Witness: a buy with size 0 on a fresh engine under the default configuration opens at
  10000 \<times> 0.1 \<times> 100, through \<^verbatim>\<open>executeSignal\<close>.
\<close>

theorem C9_missing_size_witness:
  "(s_size ((plain_signal Buy)\<lparr> s_size := Some (Num 0) \<rparr>) = None
      \<or> s_size ((plain_signal Buy)\<lparr> s_size := Some (Num 0) \<rparr>) = Some (Num 0))
   \<and> map_option p_size
        (e_position (openPosition (new_BacktestEngine DEFAULT_BACKTEST_CONFIG) Long
           (flat_candle 60000 100) ((plain_signal Buy)\<lparr> s_size := Some (Num 0) \<rparr>)))
      = Some (Num 100000)
   \<and> map_option p_size
        (e_position (executeSignal (new_BacktestEngine DEFAULT_BACKTEST_CONFIG)
           ((plain_signal Buy)\<lparr> s_size := Some (Num 0) \<rparr>) (flat_candle 60000 100)))
      = Some (Num 100000)"
proof -
  let ?sg = "(plain_signal Buy)\<lparr> s_size := Some (Num 0) \<rparr>"
  let ?e = "new_BacktestEngine DEFAULT_BACKTEST_CONFIG"
  have h: "s_size ?sg = None \<or> s_size ?sg = Some (Num 0)"
    by simp
  have f: "e_position ?e = None \<and> s_type ?sg = Buy"
    by (simp add: new_BacktestEngine_def plain_signal_def)
  have v: "js_mul (js_mul (e_equity ?e) (maxPositionSize (e_config ?e))) (leverage (e_config ?e))
          = Num 100000"
    by (simp add: new_BacktestEngine_def DEFAULT_BACKTEST_CONFIG_def)
  from C9_missing_size_opens_at_cap[OF h, of ?e Long "flat_candle 60000 100"] f
  have "map_option p_size (e_position (openPosition ?e Long (flat_candle 60000 100) ?sg))
          = Some (js_mul (js_mul (e_equity ?e) (maxPositionSize (e_config ?e)))
                    (leverage (e_config ?e)))"
    and "executeSignal ?e ?sg (flat_candle 60000 100)
          = openPosition ?e Long (flat_candle 60000 100) ?sg"
    by blast+
  with v h show ?thesis by simp
qed

subsection \<open>Profit factor\<close>

lemma foldl_js_add_fin:
  "\<forall>t\<in>set ts. is_fin (pnl_or0 t) \<Longrightarrow>
   foldl (\<lambda>sum t. js_add sum (pnl_or0 t)) (Num a) ts = Num (a + (\<Sum>t\<leftarrow>ts. fin_val (pnl_or0 t)))"
proof (induction ts arbitrary: a)
  case Nil
  then show ?case by simp
next
  case (Cons t ts)
  from Cons.prems obtain x where x: "pnl_or0 t = Num x"
    by (cases "pnl_or0 t") auto
  with Cons show ?case by (simp add: add.assoc)
qed

lemma sum_pnl_fin:
  "\<forall>t\<in>set ts. is_fin (pnl_or0 t) \<Longrightarrow> sum_pnl ts = Num (\<Sum>t\<leftarrow>ts. fin_val (pnl_or0 t))"
  using foldl_js_add_fin[of ts 0] by (simp add: sum_pnl_def)

lemma js_gt_zero_fin: "is_fin v \<Longrightarrow> js_gt v (Num 0) \<longleftrightarrow> 0 < fin_val v"
  by (cases v) (auto simp: js_gt_def)

lemma js_lt_zero_fin: "is_fin v \<Longrightarrow> js_lt v (Num 0) \<longleftrightarrow> fin_val v < 0"
  by (cases v) auto

lemma sum_list_pos_iff:
  fixes f :: "'a \<Rightarrow> real"
  assumes "\<forall>x\<in>set xs. 0 < f x"
  shows "0 \<le> (\<Sum>x\<leftarrow>xs. f x) \<and> ((\<Sum>x\<leftarrow>xs. f x) = 0 \<longleftrightarrow> xs = [])"
  using assms
proof (induction xs)
  case Nil then show ?case by simp
next
  case (Cons x xs)
  then have "0 < f x" "0 \<le> (\<Sum>x\<leftarrow>xs. f x)" by auto
  then show ?case by auto
qed

lemma sum_list_map_uminus:
  fixes f :: "'a \<Rightarrow> real"
  shows "(\<Sum>x\<leftarrow>xs. - f x) = - (\<Sum>x\<leftarrow>xs. f x)"
  by (induction xs) auto

lemma completed_fin:
  assumes "\<forall>t\<in>set trades. \<forall>v. t_pnl t = Some v \<longrightarrow> is_fin v"
  shows "\<forall>t\<in>set (completedTrades trades). is_fin (pnl_or0 t)"
  using assms by (auto simp: completedTrades_def pnl_or0_def)

lemma totalWins_fin:
  assumes "\<forall>t\<in>set trades. \<forall>v. t_pnl t = Some v \<longrightarrow> is_fin v"
  shows "\<exists>w. totalWins trades = Num w \<and> 0 \<le> w \<and>
           (w = 0 \<longleftrightarrow> filter (\<lambda>t. js_gt (pnl_or0 t) (Num 0)) (completedTrades trades) = [])"
proof -
  let ?ws = "filter (\<lambda>t. js_gt (pnl_or0 t) (Num 0)) (completedTrades trades)"
  have fin: "\<forall>t\<in>set ?ws. is_fin (pnl_or0 t)"
    using completed_fin[OF assms] by simp
  have pos: "\<forall>t\<in>set ?ws. 0 < fin_val (pnl_or0 t)"
    using completed_fin[OF assms] by (auto simp: js_gt_zero_fin)
  have "totalWins trades = Num (\<Sum>t\<leftarrow>?ws. fin_val (pnl_or0 t))"
    unfolding totalWins_def by (rule sum_pnl_fin[OF fin])
  with sum_list_pos_iff[OF pos] show ?thesis by blast
qed

lemma totalLosses_fin:
  assumes "\<forall>t\<in>set trades. \<forall>v. t_pnl t = Some v \<longrightarrow> is_fin v"
  shows "\<exists>l. totalLosses trades = Num l \<and> 0 \<le> l \<and>
           (l = 0 \<longleftrightarrow> filter (\<lambda>t. js_lt (pnl_or0 t) (Num 0)) (completedTrades trades) = [])"
proof -
  let ?ls = "filter (\<lambda>t. js_lt (pnl_or0 t) (Num 0)) (completedTrades trades)"
  have fin: "\<forall>t\<in>set ?ls. is_fin (pnl_or0 t)"
    using completed_fin[OF assms] by simp
  have pos: "\<forall>t\<in>set ?ls. 0 < - fin_val (pnl_or0 t)"
    using completed_fin[OF assms] by (auto simp: js_lt_zero_fin)
  have s: "sum_pnl ?ls = Num (\<Sum>t\<leftarrow>?ls. fin_val (pnl_or0 t))"
    by (rule sum_pnl_fin[OF fin])
  have "(\<Sum>t\<leftarrow>?ls. - fin_val (pnl_or0 t)) = - (\<Sum>t\<leftarrow>?ls. fin_val (pnl_or0 t))"
    by (rule sum_list_map_uminus)
  with sum_list_pos_iff[OF pos]
  have "(\<Sum>t\<leftarrow>?ls. fin_val (pnl_or0 t)) \<le> 0 \<and> ((\<Sum>t\<leftarrow>?ls. fin_val (pnl_or0 t)) = 0 \<longleftrightarrow> ?ls = [])"
    by auto
  with s show ?thesis
    unfolding totalLosses_def by auto
qed

lemma profitFactor_calc:
  "completedTrades trades \<noteq> [] \<Longrightarrow>
   profitFactor (calculateMetrics trades curve cap sd ed) =
     (if js_gt (totalLosses trades) (Num 0) then js_div (totalWins trades) (totalLosses trades)
      else if js_gt (totalWins trades) (Num 0) then PosInf else Num 0)"
  by (simp add: calculateMetrics_def Let_def)

text \<open>
  C8, as the code has it. For a trade list with at least one closed trade and finite
  \<^verbatim>\<open>pnl\<close> values, write \<open>wins\<close> for the summed wins and \<open>losses\<close> for the absolute summed
  losses as \<^verbatim>\<open>calculateMetrics\<close> computes them. Both are at least 0; \<open>wins\<close> is positive
  exactly when some closed trade has a positive \<^verbatim>\<open>pnl\<close>, \<open>losses\<close> exactly when one has a
  negative \<^verbatim>\<open>pnl\<close>. \<^verbatim>\<open>profitFactor\<close> is Infinity when \<open>losses = 0\<close> and \<open>wins > 0\<close>, it is 0
  when \<open>wins = 0\<close> (both sums 0, or no win against some loss), and it is the quotient
  \<open>wins / losses\<close> whenever \<open>losses > 0\<close>. It is Infinity in no other case than the first,
  and 0 in no other case than the second, unless the quotient itself evaluates to Infinity
  or to 0; for \<^verbatim>\<open>pnl\<close> values that are 0 or of magnitude between \<open>1 / 10 ^ 100\<close> and \<open>10 ^ 100\<close>,
  where the quotient of the doubles neither overflows nor underflows, the two equivalences
  hold as they stand.
\<close>

theorem C8_profit_factor:
  assumes some: "completedTrades trades \<noteq> []"
    and fin: "\<forall>t\<in>set trades. \<forall>v. t_pnl t = Some v \<longrightarrow> is_fin v"
  shows "js_le (Num 0) (totalWins trades) \<and> js_le (Num 0) (totalLosses trades)
     \<and> (js_gt (totalWins trades) (Num 0)
          \<longleftrightarrow> (\<exists>t\<in>set (completedTrades trades). js_gt (pnl_or0 t) (Num 0)))
     \<and> (js_gt (totalLosses trades) (Num 0)
          \<longleftrightarrow> (\<exists>t\<in>set (completedTrades trades). js_lt (pnl_or0 t) (Num 0)))
     \<and> (totalLosses trades = Num 0 \<and> js_gt (totalWins trades) (Num 0)
          \<longrightarrow> profitFactor (calculateMetrics trades curve cap sd ed) = PosInf)
     \<and> (totalWins trades = Num 0
          \<longrightarrow> profitFactor (calculateMetrics trades curve cap sd ed) = Num 0)
     \<and> (js_gt (totalLosses trades) (Num 0)
          \<longrightarrow> profitFactor (calculateMetrics trades curve cap sd ed)
                = js_div (totalWins trades) (totalLosses trades))
     \<and> (profitFactor (calculateMetrics trades curve cap sd ed) = PosInf
          \<longleftrightarrow> totalLosses trades = Num 0 \<and> js_gt (totalWins trades) (Num 0)
              \<or> js_gt (totalLosses trades) (Num 0)
                \<and> js_div (totalWins trades) (totalLosses trades) = PosInf)
     \<and> (profitFactor (calculateMetrics trades curve cap sd ed) = Num 0
          \<longleftrightarrow> totalWins trades = Num 0
              \<or> js_gt (totalLosses trades) (Num 0)
                \<and> js_div (totalWins trades) (totalLosses trades) = Num 0)
     \<and> ((\<forall>t\<in>set trades. \<forall>v. t_pnl t = Some v \<longrightarrow> moderate v)
          \<longrightarrow> (profitFactor (calculateMetrics trades curve cap sd ed) = PosInf
                  \<longleftrightarrow> totalLosses trades = Num 0 \<and> js_gt (totalWins trades) (Num 0))
              \<and> (profitFactor (calculateMetrics trades curve cap sd ed) = Num 0
                  \<longleftrightarrow> totalWins trades = Num 0))"
proof -
  let ?pf = "profitFactor (calculateMetrics trades curve cap sd ed)"
  from totalWins_fin[OF fin] obtain w where
    w: "totalWins trades = Num w" "0 \<le> w"
       "w = 0 \<longleftrightarrow> filter (\<lambda>t. js_gt (pnl_or0 t) (Num 0)) (completedTrades trades) = []"
    by blast
  from totalLosses_fin[OF fin] obtain l where
    l: "totalLosses trades = Num l" "0 \<le> l"
       "l = 0 \<longleftrightarrow> filter (\<lambda>t. js_lt (pnl_or0 t) (Num 0)) (completedTrades trades) = []"
    by blast
  have sign: "js_le (Num 0) (totalWins trades) \<and> js_le (Num 0) (totalLosses trades)"
    using w l by simp
  have wins: "js_gt (totalWins trades) (Num 0)
          \<longleftrightarrow> (\<exists>t\<in>set (completedTrades trades). js_gt (pnl_or0 t) (Num 0))"
    using w by (auto simp: js_gt_def filter_empty_conv)
  have losses: "js_gt (totalLosses trades) (Num 0)
          \<longleftrightarrow> (\<exists>t\<in>set (completedTrades trades). js_lt (pnl_or0 t) (Num 0))"
    using l by (auto simp: js_gt_def filter_empty_conv)
  have pf: "?pf = (if 0 < l then Num (w / l) else if 0 < w then PosInf else Num 0)"
  proof (cases "0 < l")
    case True
    then have "l \<noteq> 0" by simp
    with True w l show ?thesis by (simp add: profitFactor_calc[OF some] js_gt_def)
  next
    case False
    with w l show ?thesis by (simp add: profitFactor_calc[OF some] js_gt_def)
  qed
  have q: "js_div (totalWins trades) (totalLosses trades) = Num (w / l)" if "0 < l"
    using that w l by simp
  have inf: "?pf = PosInf \<longleftrightarrow> l = 0 \<and> 0 < w"
    using w l pf by auto
  have zero: "?pf = Num 0 \<longleftrightarrow> w = 0"
    using w l pf by auto
  show ?thesis
    using sign wins losses inf zero pf q w(1,2) l(1,2)
    by (auto simp: js_gt_def)
qed

text \<open>Witness: wins 100 against losses 50 give 2, neither Infinity nor 0.\<close>

theorem C8_profit_factor_witness:
  "completedTrades [closed_trade 100, closed_trade (- 50)] \<noteq> []
   \<and> map t_pnl [closed_trade 100, closed_trade (- 50)] = [Some (Num 100), Some (Num (- 50))]
   \<and> moderate (Num 100) \<and> moderate (Num (- 50))
   \<and> totalWins [closed_trade 100, closed_trade (- 50)] = Num 100
   \<and> totalLosses [closed_trade 100, closed_trade (- 50)] = Num 50
   \<and> profitFactor (calculateMetrics [closed_trade 100, closed_trade (- 50)]
        [\<lparr> ep_timestamp = 60000, ep_equity = Num 10050 \<rparr>] (Num 10000) 0 60000) = Num 2
   \<and> profitFactor (calculateMetrics [closed_trade 100, closed_trade (- 50)]
        [\<lparr> ep_timestamp = 60000, ep_equity = Num 10050 \<rparr>] (Num 10000) 0 60000) \<noteq> PosInf"
proof -
  let ?ts = "[closed_trade 100, closed_trade (- 50)]"
  let ?pf = "profitFactor (calculateMetrics ?ts
        [\<lparr> ep_timestamp = 60000, ep_equity = Num 10050 \<rparr>] (Num 10000) 0 60000)"
  have a: "completedTrades ?ts \<noteq> []" by code_simp
  have b: "\<forall>t\<in>set ?ts. \<forall>v. t_pnl t = Some v \<longrightarrow> is_fin v"
    by (simp add: closed_trade_def)
  have m: "\<forall>t\<in>set ?ts. \<forall>v. t_pnl t = Some v \<longrightarrow> moderate v"
    by (simp add: closed_trade_def moderate_def)
  have w: "totalWins ?ts = Num 100" by code_simp
  have l: "totalLosses ?ts = Num 50" by code_simp
  note inst = C8_profit_factor[OF a b, of "[\<lparr> ep_timestamp = 60000, ep_equity = Num 10050 \<rparr>]"
               "Num 10000" 0 60000]
  from inst have "js_gt (totalLosses ?ts) (Num 0) \<longrightarrow> ?pf = js_div (totalWins ?ts) (totalLosses ?ts)"
    by blast
  then have v: "?pf = Num 2"
    using w l by (simp add: js_gt_def)
  from inst m have "?pf = PosInf \<longleftrightarrow> totalLosses ?ts = Num 0 \<and> js_gt (totalWins ?ts) (Num 0)"
    by blast
  then have n: "?pf \<noteq> PosInf"
    using l by simp
  have p: "map t_pnl ?ts = [Some (Num 100), Some (Num (- 50))]"
    by (simp add: closed_trade_def)
  have "moderate (Num 100)" "moderate (Num (- 50))"
    by (simp_all add: moderate_def)
  with a p w l v n show ?thesis by blast
qed

text \<open>
  The claim as worded ("0 if and only if both sums are 0") fails on a single losing trade:
  the factor is 0 / 50 = 0 while the summed losses are 50.
\<close>

theorem C8_all_losses_counterexample:
  "completedTrades [closed_trade (- 50)] \<noteq> []
   \<and> profitFactor (calculateMetrics [closed_trade (- 50)]
        [\<lparr> ep_timestamp = 60000, ep_equity = Num 9950 \<rparr>] (Num 10000) 0 60000) = Num 0
   \<and> totalWins [closed_trade (- 50)] = Num 0
   \<and> totalLosses [closed_trade (- 50)] = Num 50"
  by code_simp

subsection \<open>Monte Carlo shuffle\<close>

lemma shuffleLoop_mset:
  assumes "\<forall>k. 0 \<le> rnd k \<and> rnd k < 1"
  shows "i < length xs \<Longrightarrow> mset (shuffleLoop rnd k i xs) = mset xs"
proof (induction i arbitrary: k xs)
  case 0
  then show ?case by simp
next
  case (Suc i)
  let ?j = "nat \<lfloor>rnd k * real (Suc i + 1)\<rfloor>"
  have "rnd k * real (Suc i + 1) < real (Suc i + 1)"
    using assms by (simp add: mult_less_cancel_right2)
  then have "\<lfloor>rnd k * real (Suc i + 1)\<rfloor> < int (Suc i + 1)"
    by (simp add: floor_less_iff)
  then have j: "?j \<le> Suc i" by linarith
  with Suc.prems have jl: "?j < length xs" by simp
  have "mset (xs[Suc i := xs ! ?j, ?j := xs ! Suc i]) = mset xs"
    using mset_swap[OF jl Suc.prems] by simp
  moreover have "i < length (xs[Suc i := xs ! ?j, ?j := xs ! Suc i])"
    using Suc.prems by simp
  ultimately show ?case
    using Suc.IH[of "xs[Suc i := xs ! ?j, ?j := xs ! Suc i]" "k + 1"] by (simp add: Let_def)
qed

lemma shuffleTrades_mset:
  assumes "\<forall>k. 0 \<le> rnd k \<and> rnd k < 1"
  shows "mset (shuffleTrades rnd k ts) = mset ts"
proof (cases ts)
  case Nil
  then show ?thesis by (simp add: shuffleTrades_def)
next
  case (Cons t ts')
  then have "length ts - 1 < length ts" by simp
  then show ?thesis
    unfolding shuffleTrades_def by (rule shuffleLoop_mset[OF assms])
qed


lemma pnl_or0_fin:
  "\<forall>t\<in>set ts. \<forall>v. t_pnl t = Some v \<longrightarrow> is_fin v \<Longrightarrow> \<forall>t\<in>set ts. is_fin (pnl_or0 t)"
  by (auto simp: pnl_or0_def split: option.splits)

lemma sum_list_perm:
  fixes f :: "'a \<Rightarrow> real"
  assumes "mset xs = mset ys"
  shows "(\<Sum>x\<leftarrow>xs. f x) = (\<Sum>x\<leftarrow>ys. f x)"
proof -
  have "(\<Sum>x\<leftarrow>xs. f x) = sum_mset (image_mset f (mset xs))"
    by (simp flip: sum_mset_sum_list mset_map)
  also have "\<dots> = sum_mset (image_mset f (mset ys))"
    using assms by simp
  also have "\<dots> = (\<Sum>x\<leftarrow>ys. f x)"
    by (simp flip: sum_mset_sum_list mset_map)
  finally show ?thesis .
qed

lemma foldl_simStep_equity:
  "\<forall>t\<in>set ts. is_fin (pnl_or0 t) \<Longrightarrow> ss_equity st = Num a \<Longrightarrow>
   ss_equity (foldl (simStep cfg) st ts) = Num (a + (\<Sum>t\<leftarrow>ts. fin_val (pnl_or0 t)))"
proof (induction ts arbitrary: st a)
  case Nil
  then show ?case by simp
next
  case (Cons t ts)
  from Cons.prems obtain x where x: "pnl_or0 t = Num x"
    by (cases "pnl_or0 t") auto
  have "ss_equity (simStep cfg st t) = Num (a + x)"
    using x Cons.prems(2)
    by (auto simp: simStep_def pnl_or0_def Let_def split: option.splits)
  from Cons.IH[OF _ this] Cons.prems(1) x show ?case
    by (simp add: add.assoc)
qed

lemma simulate_finalEquity:
  assumes "\<forall>t\<in>set ts. is_fin (pnl_or0 t)" "mc_initialCapital cfg = Num c"
  shows "sim_finalEquity (simulateEquityCurve cfg ts) = Num (c + (\<Sum>t\<leftarrow>ts. fin_val (pnl_or0 t)))"
    and "sim_totalReturn (simulateEquityCurve cfg ts) =
           js_mul (js_div (Num (\<Sum>t\<leftarrow>ts. fin_val (pnl_or0 t))) (Num c)) (Num 100)"
  using foldl_simStep_equity[OF assms(1), of "\<lparr> ss_equity = mc_initialCapital cfg, ss_peak = mc_initialCapital cfg,
                   ss_maxDrawdown = Num 0, ss_hitRuin = False \<rparr>" c cfg] assms(2)
  by (simp_all add: simulateEquityCurve_def Let_def js_sub_def)

text \<open>
  In exact arithmetic, for draws in \<open>[0, 1)\<close> and finite \<^verbatim>\<open>pnl\<close> values: \<^verbatim>\<open>shuffleTrades\<close>
  returns a permutation of its input, so the sum of \<^verbatim>\<open>pnl\<close> is preserved; every simulated
  run ends at \<open>initialCapital + \<Sum>pnl\<close> and reports
  \<open>totalReturn = \<Sum>pnl / initialCapital \<times> 100\<close>, a percentage, the same as the replay of
  the unshuffled list. That value is the \<^verbatim>\<open>totalReturnPercent\<close> of \<^verbatim>\<open>calculateMetrics\<close> on the
  same capital whenever the final equity point minus the capital is \<open>\<Sum>pnl\<close>. With
  \<open>simulations = 1\<close> the results array holds that one run.
\<close>

lemma shuffle_preserves_sum:
  assumes rnd: "\<forall>k. 0 \<le> rnd k \<and> rnd k < 1"
      and fin: "\<forall>t\<in>set ts. \<forall>v. t_pnl t = Some v \<longrightarrow> is_fin v"
      and cap: "mc_initialCapital cfg = Num c"
  shows "mset (shuffleTrades rnd k ts) = mset ts
     \<and> sum_pnl (shuffleTrades rnd k ts) = sum_pnl ts
     \<and> sim_finalEquity (simulateEquityCurve cfg (shuffleTrades rnd k ts))
         = js_add (Num c) (sum_pnl ts)
     \<and> sim_totalReturn (simulateEquityCurve cfg (shuffleTrades rnd k ts))
         = js_mul (js_div (sum_pnl ts) (Num c)) (Num 100)
     \<and> sim_totalReturn (simulateEquityCurve cfg (shuffleTrades rnd k ts))
         = sim_totalReturn (simulateEquityCurve cfg ts)
     \<and> (completedTrades ts \<noteq> [] \<and> js_sub (finalEquity curve (Num c)) (Num c) = sum_pnl ts
          \<longrightarrow> totalReturnPercent (calculateMetrics ts curve (Num c) sd ed)
                = sim_totalReturn (simulateEquityCurve cfg (shuffleTrades rnd k ts)))
     \<and> (simulations cfg = 1 \<and> ts \<noteq> [] \<and> (\<forall>t\<in>set ts. t_pnl t \<noteq> None)
          \<longrightarrow> simulate_results cfg rnd ts = [simulateEquityCurve cfg (shuffleTrades rnd 0 ts)])"
proof -
  let ?sh = "shuffleTrades rnd k ts"
  have perm: "mset ?sh = mset ts"
    by (rule shuffleTrades_mset[OF rnd])
  then have "set ?sh = set ts"
    by (rule mset_eq_setD)
  with fin have fin_sh: "\<forall>t\<in>set ?sh. is_fin (pnl_or0 t)" and fin_ts: "\<forall>t\<in>set ts. is_fin (pnl_or0 t)"
    using pnl_or0_fin[OF fin] by simp_all
  have sums: "(\<Sum>t\<leftarrow>?sh. fin_val (pnl_or0 t)) = (\<Sum>t\<leftarrow>ts. fin_val (pnl_or0 t))"
    by (rule sum_list_perm[OF perm])
  have s_ts: "sum_pnl ts = Num (\<Sum>t\<leftarrow>ts. fin_val (pnl_or0 t))"
    by (rule sum_pnl_fin[OF fin_ts])
  have s_sh: "sum_pnl ?sh = sum_pnl ts"
    using sum_pnl_fin[OF fin_sh] s_ts sums by simp
  have fe: "sim_finalEquity (simulateEquityCurve cfg ?sh) = js_add (Num c) (sum_pnl ts)"
    using simulate_finalEquity(1)[OF fin_sh cap] sums s_ts by simp
  have tr: "sim_totalReturn (simulateEquityCurve cfg ?sh) = js_mul (js_div (sum_pnl ts) (Num c)) (Num 100)"
    using simulate_finalEquity(2)[OF fin_sh cap] sums s_ts by simp
  have tr0: "sim_totalReturn (simulateEquityCurve cfg ts) = js_mul (js_div (sum_pnl ts) (Num c)) (Num 100)"
    using simulate_finalEquity(2)[OF fin_ts cap] s_ts by simp
  have met: "totalReturnPercent (calculateMetrics ts curve (Num c) sd ed)
                = sim_totalReturn (simulateEquityCurve cfg ?sh)"
    if "completedTrades ts \<noteq> []" "js_sub (finalEquity curve (Num c)) (Num c) = sum_pnl ts"
    using that tr by (simp add: calculateMetrics_def Let_def)
  have one: "simulate_results cfg rnd ts = [simulateEquityCurve cfg (shuffleTrades rnd 0 ts)]"
    if "simulations cfg = 1" "ts \<noteq> []" "\<forall>t\<in>set ts. t_pnl t \<noteq> None"
  proof -
    from that(3) have "filter (\<lambda>t. t_pnl t \<noteq> None) ts = ts" by (simp add: filter_id_conv)
    with that(1,2) show ?thesis by (simp add: simulate_results_def)
  qed
  from perm s_sh fe tr tr0 met one show ?thesis by simp
qed

text \<open>
  For instance, on a backtest that buys at 100 and closes at 110 without costs, and so
  ends with no open position, the single simulation reports the return of the backtest,
  1 percent.
\<close>

lemma single_simulation_flat_example:
  "map_option
     (\<lambda>r. (map sim_totalReturn (simulate_results mc_single quarter_draws (r_trades r)),
           totalReturnPercent (r_metrics r)))
     (result_of (runBacktest [flat_candle 0 100, flat_candle 60000 110] buyThenClose
                   costless_config))
   = Some ([Num 1], Num 1)"
  by code_simp

text \<open>
  C7. The claim: the shuffle is a permutation, so the sum of \<^verbatim>\<open>pnl\<close> is preserved and the
  single simulation of \<open>S = 1\<close> reports the total return of the original backtest. The
  simulation side is as claimed (above). The backtest side is not: its return is read off
  the last equity point, which misses the end-of-data close of C1. On the one-candle input
  of C1, with the simulator on the backtest's capital of 10000, the one returned trade has
  \<^verbatim>\<open>pnl\<close> of about -22.00 and the single simulation reports -0.22 percent, while the
  backtest reports \<^verbatim>\<open>totalReturnPercent\<close> of about -0.01 (\<^verbatim>\<open>totalReturn\<close> of about -1.00).
\<close>

theorem C7_single_simulation_differs_from_backtest:
  "mc_initialCapital mc_single = initialCapital DEFAULT_BACKTEST_CONFIG
   \<and> simulations mc_single = 1
   \<and> map_option
       (\<lambda>r. (map sim_totalReturn (simulate_results mc_single quarter_draws (r_trades r)),
             totalReturnPercent (r_metrics r),
             totalReturn (r_metrics r),
             map pnl_or0 (r_trades r)))
       (result_of (runBacktest [flat_candle 60000 100] buyAlways DEFAULT_BACKTEST_CONFIG))
     = Some ([Num (- (110001 / 500005))], Num (- (1000 / 100001)), Num (- (100000 / 100001)),
             [Num (- (2200020 / 100001))])"
  by code_simp

subsection \<open>Indicator warm-up\<close>











lemma sma_length [simp]: "length (sma data period) = length data"
  by (simp add: sma_def)








lemma emaStep_length [simp]: "length (emaStep data period result i) = Suc (length result)"
  by (simp add: emaStep_def Let_def)








subsection \<open>Rounding of doubles on numerals\<close>

lemma scale53_numeral:
  "scale53 (numeral k) m u =
     (if 2 ^ 53 \<le> m then scale53 (pred_numeral k) (m / 2) (u * 2)
      else if m < 2 ^ 52 then scale53 (pred_numeral k) (m * 2) (u / 2)
      else (m, u))"
  by (simp add: numeral_eq_Suc)

lemmas binary64_eval = binary64_def scale53_numeral round_half_even_def Let_def

subsection \<open>Walk-forward windows\<close>

lemma make_window_index:
  "make_window cs k trainStart trainEnd testStart testEnd = Inr w \<Longrightarrow>
   trainIndex w = \<lparr> ir_start = trainStart, ir_end = trainEnd \<rparr> \<and>
   testIndex w = \<lparr> ir_start = testStart, ir_end = testEnd \<rparr>"
  by (auto simp: make_window_def split: sum.splits)

lemma map_sum_Some: "map_sum id Some x = Inr (Some w) \<longleftrightarrow> x = Inr w"
  by (cases x) auto

lemma rollingWindow_bounds:
  assumes "rollingWindow cs windowSize trainSize (windowSize - trainSize) i = Inr (Some w)"
  shows "ir_start (trainIndex w) = i * windowSize"
    and "ir_end (testIndex w) < (i + 1) * windowSize"
proof -
  let ?trainStart = "i * windowSize"
  let ?trainEnd = "?trainStart + trainSize - 1"
  let ?testEnd = "min (?trainEnd + 1 + (windowSize - trainSize) - 1) (int (length cs) - 1)"
  from assms have "make_window cs ?trainStart ?trainStart ?trainEnd (?trainEnd + 1) ?testEnd = Inr w"
    by (simp add: rollingWindow_def Let_def map_sum_Some split: if_splits)
  from make_window_index[OF this]
  show "ir_start (trainIndex w) = i * windowSize"
    and "ir_end (testIndex w) < (i + 1) * windowSize"
    by (simp_all add: algebra_simps)
qed

lemma rollingWindow_size_positive:
  assumes "rollingWindow cs windowSize trainSize (windowSize - trainSize) i = Inr (Some w)"
    and "0 \<le> i"
  shows "0 < windowSize"
proof -
  let ?trainStart = "i * windowSize"
  let ?trainEnd = "?trainStart + trainSize - 1"
  let ?testEnd = "min (?trainEnd + 1 + (windowSize - trainSize) - 1) (int (length cs) - 1)"
  from assms(1) have "make_window cs ?trainStart ?trainStart ?trainEnd (?trainEnd + 1) ?testEnd = Inr w"
    by (simp add: rollingWindow_def Let_def map_sum_Some split: if_splits)
  then have "0 \<le> ?testEnd"
    by (auto simp: make_window_def timestamp_at_def split: sum.splits if_splits)
  then have "1 \<le> (i + 1) * windowSize"
    by (simp add: algebra_simps)
  with assms(2) show ?thesis
    by (smt (verit) mult_nonneg_nonpos)
qed

lemma anchoredWindow_start:
  "anchoredWindow rd cs ratio n testSize i = Inr (Some w) \<Longrightarrow> ir_start (trainIndex w) = 0"
  by (auto simp: anchoredWindow_def Let_def map_sum_Some split: if_splits dest: make_window_index)

lemma collectWindows_all:
  assumes "\<And>i w. i \<in> set is \<Longrightarrow> body i = Inr (Some w) \<Longrightarrow> P w"
  shows "collectWindows body is acc = Inr ws \<Longrightarrow> \<forall>w\<in>set acc. P w \<Longrightarrow> \<forall>w\<in>set ws. P w"
  using assms
proof (induction "is" arbitrary: acc)
  case Nil
  then show ?case by simp
next
  case (Cons i "is")
  have rest: "\<And>j w. j \<in> set is \<Longrightarrow> body j = Inr (Some w) \<Longrightarrow> P w"
    using Cons.prems(3) by auto
  show ?case
  proof (cases "body i")
    case (Inl e)
    with Cons.prems show ?thesis by simp
  next
    case (Inr opt)
    show ?thesis
    proof (cases opt)
      case None
      with Inr Cons.prems(1) have "collectWindows body is acc = Inr ws" by simp
      from Cons.IH[OF this Cons.prems(2) rest] show ?thesis .
    next
      case (Some w)
      with Inr Cons.prems(1) have c: "collectWindows body is (acc @ [w]) = Inr ws" by simp
      from Inr Some Cons.prems(3)[of i w] have "P w" by simp
      with Cons.prems(2) have "\<forall>w\<in>set (acc @ [w]). P w" by simp
      from Cons.IH[OF c this rest] show ?thesis .
    qed
  qed
qed

lemma collectWindows_rolling_sorted:
  assumes W: "0 \<le> windowSize"
  shows "collectWindows (rollingWindow cs windowSize trainSize (windowSize - trainSize))
           (map int [k..<n]) acc = Inr ws \<Longrightarrow>
         sorted_wrt window_before acc \<Longrightarrow>
         \<forall>w\<in>set acc. ir_end (testIndex w) < int k * windowSize \<Longrightarrow>
         sorted_wrt window_before ws"
proof (induction "n - k" arbitrary: k acc)
  case 0
  then show ?case by simp
next
  case (Suc d)
  then have kn: "k < n" and d: "d = n - Suc k" by simp_all
  then have up: "map int [k..<n] = int k # map int [Suc k..<n]"
    by (simp add: upt_conv_Cons)
  let ?body = "rollingWindow cs windowSize trainSize (windowSize - trainSize)"
  have mono: "int k * windowSize \<le> int (Suc k) * windowSize"
    using W by (simp add: algebra_simps)
  show ?case
  proof (cases "?body (int k)")
    case (Inl e)
    with Suc.prems up show ?thesis by simp
  next
    case (Inr opt)
    show ?thesis
    proof (cases opt)
      case None
      with Inr Suc.prems up
      have "collectWindows ?body (map int [Suc k..<n]) acc = Inr ws" by simp
      moreover have "\<forall>w\<in>set acc. ir_end (testIndex w) < int (Suc k) * windowSize"
        using Suc.prems(3) mono by fastforce
      ultimately show ?thesis
        using Suc.hyps(1)[OF d _ Suc.prems(2)] by blast
    next
      case (Some w)
      with Inr Suc.prems up
      have c: "collectWindows ?body (map int [Suc k..<n]) (acc @ [w]) = Inr ws" by simp
      from rollingWindow_bounds[of cs windowSize trainSize "int k" w] Inr Some
      have b: "ir_start (trainIndex w) = int k * windowSize"
              "ir_end (testIndex w) < (int k + 1) * windowSize"
        by simp_all
      have s: "sorted_wrt window_before (acc @ [w])"
        using Suc.prems(2,3) b(1) by (simp add: sorted_wrt_append window_before_def)
      have e: "\<forall>w'\<in>set (acc @ [w]). ir_end (testIndex w') < int (Suc k) * windowSize"
        using Suc.prems(3) mono b(2) by (fastforce simp: algebra_simps)
      show ?thesis
        using Suc.hyps(1)[OF d c s e] .
    qed
  qed
qed

text \<open>
  The rounding decides the sizes: for a window of 100 candles and a ratio of 0.57 the
  product is just below 57 in double arithmetic, so the training size is 56, where exact
  arithmetic gives 57.
\<close>

lemma train_size_rounding_example:
  "\<lfloor>binary64 (real_of_int 100 * binary64 (57 / 100))\<rfloor> = 56
   \<and> \<lfloor>real_of_int 100 * (57 / 100 :: real)\<rfloor> = 57"
  by (simp add: binary64_eval)

text \<open>
  C6. Whenever \<^verbatim>\<open>generateWindows\<close> returns, in exact arithmetic, in double arithmetic and
  under any other rounding of the two non-integer results: under the rolling policy every
  window ends (test end) before any later window starts (train start), so the candle-index
  ranges, train start through test end, of two different windows are disjoint; under the
  anchored policy every window has \<open>trainIndex.start = 0\<close>.
\<close>

theorem C6_walk_forward_windows:
  assumes "generateWindows rd cs cfg = Inr ws"
  shows "(windowType cfg = Rolling \<longrightarrow>
            (\<forall>a b. a < b \<and> b < length ws \<longrightarrow>
               ir_end (testIndex (ws ! a)) < ir_start (trainIndex (ws ! b)) \<and>
               {ir_start (trainIndex (ws ! a)) .. ir_end (testIndex (ws ! a))} \<inter>
               {ir_start (trainIndex (ws ! b)) .. ir_end (testIndex (ws ! b))} = {}))
       \<and> (windowType cfg = Anchored \<longrightarrow> (\<forall>w\<in>set ws. ir_start (trainIndex w) = 0))"
proof (intro conjI impI)
  assume r: "windowType cfg = Rolling"
  let ?W = "\<lfloor>rd (real_of_int (int (length cs)) / real_of_int (numWindows cfg))\<rfloor>"
  let ?T = "\<lfloor>rd (real_of_int ?W * trainRatio cfg)\<rfloor>"
  from assms r have c: "collectWindows (rollingWindow cs ?W ?T (?W - ?T))
      (map int [0..<nat (numWindows cfg)]) [] = Inr ws"
    by (simp add: generateWindows_def Let_def)
  have s: "sorted_wrt window_before ws"
  proof (cases "0 \<le> ?W")
    case True
    from collectWindows_rolling_sorted[OF this c] show ?thesis by simp
  next
    case False
    have "\<forall>w\<in>set ws. False"
    proof (rule collectWindows_all[OF _ c])
      fix i w
      assume "i \<in> set (map int [0..<nat (numWindows cfg)])"
        and "rollingWindow cs ?W ?T (?W - ?T) i = Inr (Some w)"
      then have "0 < ?W"
        by (intro rollingWindow_size_positive[of cs ?W ?T i w]) auto
      with False show False by simp
    qed simp
    then have "ws = []" by (cases ws) auto
    then show ?thesis by simp
  qed
  show "\<forall>a b. a < b \<and> b < length ws \<longrightarrow>
               ir_end (testIndex (ws ! a)) < ir_start (trainIndex (ws ! b)) \<and>
               {ir_start (trainIndex (ws ! a)) .. ir_end (testIndex (ws ! a))} \<inter>
               {ir_start (trainIndex (ws ! b)) .. ir_end (testIndex (ws ! b))} = {}"
  proof (intro allI impI)
    fix a b assume "a < b \<and> b < length ws"
    with s have "window_before (ws ! a) (ws ! b)"
      by (simp add: sorted_wrt_iff_nth_less)
    then show "ir_end (testIndex (ws ! a)) < ir_start (trainIndex (ws ! b)) \<and>
               {ir_start (trainIndex (ws ! a)) .. ir_end (testIndex (ws ! a))} \<inter>
               {ir_start (trainIndex (ws ! b)) .. ir_end (testIndex (ws ! b))} = {}"
      by (auto simp: window_before_def)
  qed
next
  assume a: "windowType cfg = Anchored"
  let ?S = "\<lfloor>rd (real_of_int (int (length cs)) / real_of_int (numWindows cfg))\<rfloor>"
  from assms a have c: "collectWindows (anchoredWindow rd cs (trainRatio cfg) (numWindows cfg) ?S)
      (map int [0..<nat (numWindows cfg)]) [] = Inr ws"
    by (simp add: generateWindows_def Let_def)
  show "\<forall>w\<in>set ws. ir_start (trainIndex w) = 0"
    by (rule collectWindows_all[OF _ c]) (simp_all add: anchoredWindow_start)
qed

text \<open>
  Witness: twenty candles, three windows, 70 percent training, under both policies (exact
  arithmetic).
\<close>

theorem C6_walk_forward_witness:
  "(\<exists>ws. generateWindows (\<lambda>x. x) twenty_candles (walk_config Rolling) = Inr ws
         \<and> windowType (walk_config Rolling) = Rolling \<and> length ws = 3
         \<and> ir_end (testIndex (ws ! 0)) < ir_start (trainIndex (ws ! 1))
         \<and> ir_end (testIndex (ws ! 1)) < ir_start (trainIndex (ws ! 2)))
   \<and> (\<exists>ws. generateWindows (\<lambda>x. x) twenty_candles (walk_config Anchored) = Inr ws
         \<and> windowType (walk_config Anchored) = Anchored \<and> length ws = 3
         \<and> map (\<lambda>w. ir_start (trainIndex w)) ws = [0, 0, 0])"
proof -
  have "map_sum id length (generateWindows (\<lambda>x. x) twenty_candles (walk_config Rolling)) = Inr 3"
    by code_simp
  then obtain ws where
    ws: "generateWindows (\<lambda>x. x) twenty_candles (walk_config Rolling) = Inr ws" "length ws = 3"
    by (cases "generateWindows (\<lambda>x. x) twenty_candles (walk_config Rolling)") auto
  have r: "windowType (walk_config Rolling) = Rolling"
    by (simp add: walk_config_def)
  from C6_walk_forward_windows[OF ws(1)] r ws(2)
  have o: "ir_end (testIndex (ws ! 0)) < ir_start (trainIndex (ws ! 1))"
          "ir_end (testIndex (ws ! 1)) < ir_start (trainIndex (ws ! 2))"
    by simp_all
  have "map_sum id length (generateWindows (\<lambda>x. x) twenty_candles (walk_config Anchored)) = Inr 3"
    by code_simp
  then obtain vs where
    vs: "generateWindows (\<lambda>x. x) twenty_candles (walk_config Anchored) = Inr vs" "length vs = 3"
    by (cases "generateWindows (\<lambda>x. x) twenty_candles (walk_config Anchored)") auto
  have a: "windowType (walk_config Anchored) = Anchored"
    by (simp add: walk_config_def)
  from C6_walk_forward_windows[OF vs(1)] a have "\<forall>w\<in>set vs. ir_start (trainIndex w) = 0"
    by simp
  then have "map (\<lambda>w. ir_start (trainIndex w)) vs = replicate (length vs) 0"
    by (simp add: map_replicate_const[symmetric] cong: map_cong)
  with vs(2) have z: "map (\<lambda>w. ir_start (trainIndex w)) vs = [0, 0, 0]"
    by (simp add: numeral_3_eq_3)
  have A: "\<exists>ws. generateWindows (\<lambda>x. x) twenty_candles (walk_config Rolling) = Inr ws
         \<and> windowType (walk_config Rolling) = Rolling \<and> length ws = 3
         \<and> ir_end (testIndex (ws ! 0)) < ir_start (trainIndex (ws ! 1))
         \<and> ir_end (testIndex (ws ! 1)) < ir_start (trainIndex (ws ! 2))"
    using ws r o by (intro exI[of _ ws]) simp
  have B: "\<exists>ws. generateWindows (\<lambda>x. x) twenty_candles (walk_config Anchored) = Inr ws
         \<and> windowType (walk_config Anchored) = Anchored \<and> length ws = 3
         \<and> map (\<lambda>w. ir_start (trainIndex w)) ws = [0, 0, 0]"
    using vs a z by (intro exI[of _ vs]) simp
  from A B show ?thesis by (rule conjI)
qed

subsection \<open>Grid search\<close>

lemma js_rd_id [simp]: "js_rd (\<lambda>x. x) v = v"
  by (cases v) simp_all

lemma range_values_count:
  assumes s: "0 < s"
  shows "nat (\<lfloor>(b - a) / s\<rfloor> + 1) = n \<Longrightarrow>
         \<exists>vs. range_values (\<lambda>x. x) (Num a) (Num b) (Num s) = Some vs \<and> length vs = n"
proof (induction n arbitrary: a)
  case 0
  then have "\<lfloor>(b - a) / s\<rfloor> < 0" by linarith
  then have "(b - a) / s < 0" by (simp add: floor_less_iff)
  with s have "b < a" by (simp add: divide_less_0_iff)
  then show ?case by (subst range_values.simps) simp
next
  case (Suc n)
  then have "0 \<le> \<lfloor>(b - a) / s\<rfloor>" by linarith
  then have "0 \<le> (b - a) / s" by (simp add: zero_le_floor)
  with s have le: "a \<le> b" by (simp add: zero_le_divide_iff)
  have "(b - (a + s)) / s = (b - a) / s - 1"
    using s by (simp add: field_simps)
  then have "\<lfloor>(b - (a + s)) / s\<rfloor> = \<lfloor>(b - a) / s\<rfloor> - 1" by simp
  with Suc.prems have "nat (\<lfloor>(b - (a + s)) / s\<rfloor> + 1) = n" by linarith
  from Suc.IH[OF this] obtain vs where
    vs: "range_values (\<lambda>x. x) (Num (a + s)) (Num b) (Num s) = Some vs" "length vs = n" by blast
  show ?case
    using le vs by (subst range_values.simps) simp
qed

lemma valid_range_values:
  assumes "valid_range r"
  shows "\<exists>vs. range_values (\<lambda>x. x) (rng_min r) (rng_max r) (rng_step r) = Some vs \<and> length vs = steps_of r"
proof -
  from assms obtain a b s where
    e: "rng_min r = Num a" "rng_max r = Num b" "rng_step r = Num s" and s: "0 < s"
    by (cases "rng_min r"; cases "rng_max r"; cases "rng_step r") (auto simp: valid_range_def js_gt_def)
  show ?thesis
    using range_values_count[OF s, of b a "steps_of r"] e by (simp add: steps_of_def)
qed

lemma those_map_length:
  assumes "\<forall>v\<in>set vs. \<exists>xs. f v = Some xs \<and> length xs = m"
  shows "\<exists>xss. those (map f vs) = Some xss \<and> length (concat xss) = length vs * m"
  using assms
proof (induction vs)
  case Nil
  then show ?case by simp
next
  case (Cons v vs)
  then obtain xs where xs: "f v = Some xs" "length xs = m" by auto
  from Cons obtain xss where xss: "those (map f vs) = Some xss" "length (concat xss) = length vs * m"
    by auto
  show ?case using xs xss by simp
qed

lemma generateRecursive_count:
  "\<forall>r\<in>set (map snd ranges). valid_range r \<Longrightarrow>
   \<exists>combos. generateRecursive (\<lambda>x. x) ranges base current = Some combos \<and>
            length combos = prod_list (map (\<lambda>kr. steps_of (snd kr)) ranges)"
proof (induction ranges arbitrary: current)
  case Nil
  then show ?case by simp
next
  case (Cons kr ranges)
  obtain key r where kr: "kr = (key, r)" by (cases kr)
  from Cons.prems kr have ok: "valid_range r" and rest: "\<forall>r\<in>set (map snd ranges). valid_range r"
    by simp_all
  from valid_range_values[OF ok] obtain vs where
    vs: "range_values (\<lambda>x. x) (rng_min r) (rng_max r) (rng_step r) = Some vs" "length vs = steps_of r"
    by blast
  let ?f = "\<lambda>v. generateRecursive (\<lambda>x. x) ranges base (AList.update key (PNum (roundedValue (\<lambda>x. x) v)) current)"
  have "\<forall>v\<in>set vs. \<exists>xs. ?f v = Some xs \<and>
          length xs = prod_list (map (\<lambda>kr. steps_of (snd kr)) ranges)"
    using Cons.IH[OF rest] by blast
  from those_map_length[OF this] obtain xss where
    "those (map ?f vs) = Some xss"
    "length (concat xss) = length vs * prod_list (map (\<lambda>kr. steps_of (snd kr)) ranges)"
    by blast
  with vs kr show ?case by simp
qed

lemma valid_range_factor:
  assumes "valid_range r"
  shows "js_add (js_floor (js_div (js_sub (rng_max r) (rng_min r)) (rng_step r))) (Num 1)
         = Num (real (steps_of r))"
proof -
  from assms obtain a b s where
    e: "rng_min r = Num a" "rng_max r = Num b" "rng_step r = Num s" and s: "0 < s" and le: "a \<le> b"
    by (cases "rng_min r"; cases "rng_max r"; cases "rng_step r") (auto simp: valid_range_def js_gt_def)
  from s le have "0 \<le> (b - a) / s" by simp
  then have "0 \<le> \<lfloor>(b - a) / s\<rfloor>" by (simp add: zero_le_floor)
  then have "real (nat (\<lfloor>(b - a) / s\<rfloor> + 1)) = real_of_int \<lfloor>(b - a) / s\<rfloor> + 1"
    by simp
  with e s show ?thesis
    by (simp add: js_sub_def steps_of_def)
qed

lemma foldl_total:
  "\<forall>r\<in>set rs. valid_range r \<Longrightarrow>
   foldl (\<lambda>total rng.
              js_mul total
                (js_add (js_floor (js_div (js_sub (rng_max rng) (rng_min rng)) (rng_step rng)))
                   (Num 1)))
       (Num t) rs = Num (t * real (prod_list (map steps_of rs)))"
proof (induction rs arbitrary: t)
  case Nil
  then show ?case by simp
next
  case (Cons r rs)
  then show ?case by (simp add: valid_range_factor mult.assoc)
qed

lemma getTotalCombinations_count:
  assumes "\<forall>r\<in>set (map snd (paramRanges cfg)). valid_range r"
  shows "getTotalCombinations (\<lambda>x. x) cfg
         = Num (real (prod_list (map (\<lambda>kr. steps_of (snd kr)) (paramRanges cfg))))"
  using foldl_total[of "map snd (paramRanges cfg)" 1] assms
  by (simp add: getTotalCombinations_def comp_def Let_def)

lemma optimizeStep_evaluated:
  "map fst (os_evaluated (optimizeStep gs f st params)) = map fst (os_evaluated st) @ [params]"
  by (simp add: optimizeStep_def Let_def split: sum.split)

lemma foldl_optimizeStep_evaluated:
  "map fst (os_evaluated (foldl (optimizeStep gs f) st combos)) = map fst (os_evaluated st) @ combos"
  by (induction combos arbitrary: st) (simp_all add: optimizeStep_evaluated)



lemma optimize_evaluates_each:
  assumes "generateCombinations rd (gs_optimizationConfig gs) baseParams = Some combos"
  shows "\<exists>res. optimize rd gs strategyFactory baseParams = Some res
             \<and> or_totalCombinations res = length combos
             \<and> map fst (or_evaluated res) = combos"
  using assms by (simp add: optimize_def Let_def foldl_optimizeStep_evaluated)

text \<open>
  In exact arithmetic the claim holds: when every range has finite bounds, a positive step
  and \<open>min \<le> max\<close>, \<^verbatim>\<open>generateCombinations\<close> returns exactly
  \<open>\<Prod>(\<lfloor>(max - min) / step\<rfloor> + 1)\<close> parameter sets, \<^verbatim>\<open>getTotalCombinations\<close> returns that
  number, and \<^verbatim>\<open>optimize\<close> calls \<^verbatim>\<open>engine.run\<close> once for each of them, in order.
\<close>

lemma grid_search_count_exact:
  assumes "\<forall>r\<in>set (map snd (paramRanges (gs_optimizationConfig gs))).
             is_fin (rng_min r) \<and> is_fin (rng_max r) \<and> is_fin (rng_step r) \<and>
             js_gt (rng_step r) (Num 0) \<and> js_le (rng_min r) (rng_max r)"
  shows "\<exists>combos res.
           generateCombinations (\<lambda>x. x) (gs_optimizationConfig gs) baseParams = Some combos
         \<and> length combos =
             (\<Prod>r\<leftarrow>map snd (paramRanges (gs_optimizationConfig gs)).
                nat (\<lfloor>(fin_val (rng_max r) - fin_val (rng_min r)) / fin_val (rng_step r)\<rfloor> + 1))
         \<and> getTotalCombinations (\<lambda>x. x) (gs_optimizationConfig gs) = Num (real (length combos))
         \<and> optimize (\<lambda>x. x) gs strategyFactory baseParams = Some res
         \<and> or_totalCombinations res = length combos
         \<and> map fst (or_evaluated res) = combos"
proof -
  let ?cfg = "gs_optimizationConfig gs"
  from assms have ok: "\<forall>r\<in>set (map snd (paramRanges ?cfg)). valid_range r"
    by (simp add: valid_range_def)
  from generateRecursive_count[OF ok, of baseParams "[]"] obtain combos where
    c: "generateCombinations (\<lambda>x. x) ?cfg baseParams = Some combos"
       "length combos = prod_list (map (\<lambda>kr. steps_of (snd kr)) (paramRanges ?cfg))"
    by (auto simp: generateCombinations_def)
  have p: "prod_list (map (\<lambda>kr. steps_of (snd kr)) (paramRanges ?cfg)) =
        (\<Prod>r\<leftarrow>map snd (paramRanges ?cfg).
                nat (\<lfloor>(fin_val (rng_max r) - fin_val (rng_min r)) / fin_val (rng_step r)\<rfloor> + 1))"
    by (simp add: steps_of_def comp_def)
  have t: "getTotalCombinations (\<lambda>x. x) ?cfg = Num (real (length combos))"
    using getTotalCombinations_count[OF ok] c(2) by simp
  from optimize_evaluates_each[OF c(1), of strategyFactory] obtain res where
    r: "optimize (\<lambda>x. x) gs strategyFactory baseParams = Some res"
       "or_totalCombinations res = length combos" "map fst (or_evaluated res) = combos"
    by blast
  from c p t r show ?thesis by auto
qed

text \<open>For instance 5..15 by 5 and 20..40 by 10 give 3 \<times> 3 = 9 combinations.\<close>

lemma grid_search_count_exact_example:
  "map_option length (generateCombinations (\<lambda>x. x) (gs_optimizationConfig grid_optimizer) [])
     = Some 9
   \<and> getTotalCombinations (\<lambda>x. x) (gs_optimizationConfig grid_optimizer) = Num 9
   \<and> map_option (\<lambda>res. (or_totalCombinations res, length (or_evaluated res)))
        (optimize (\<lambda>x. x) grid_optimizer (\<lambda>p. buyAlways) []) = Some (9, 9)"
proof -
  have h: "\<forall>r\<in>set (map snd (paramRanges (gs_optimizationConfig grid_optimizer))).
             is_fin (rng_min r) \<and> is_fin (rng_max r) \<and> is_fin (rng_step r) \<and>
             js_gt (rng_step r) (Num 0) \<and> js_le (rng_min r) (rng_max r)"
    by (simp add: grid_optimizer_def grid_config_def num_range_def js_gt_def)
  have n: "(\<Prod>r\<leftarrow>map snd (paramRanges (gs_optimizationConfig grid_optimizer)).
              nat (\<lfloor>(fin_val (rng_max r) - fin_val (rng_min r)) / fin_val (rng_step r)\<rfloor> + 1))
           = 9"
    by (simp add: grid_optimizer_def grid_config_def num_range_def)
  from grid_search_count_exact[OF h, of "[]" "\<lambda>p. buyAlways"] obtain combos res where
    "generateCombinations (\<lambda>x. x) (gs_optimizationConfig grid_optimizer) [] = Some combos"
    "length combos = 9"
    "getTotalCombinations (\<lambda>x. x) (gs_optimizationConfig grid_optimizer)
       = Num (real (length combos))"
    "optimize (\<lambda>x. x) grid_optimizer (\<lambda>p. buyAlways) [] = Some res"
    "or_totalCombinations res = length combos"
    "map fst (or_evaluated res) = combos"
    unfolding n by blast
  then show ?thesis
    by (auto dest: arg_cong[where f = length])
qed

lemma binary64_tenth: "binary64 (1 / 10) = 3602879701896397 / 36028797018963968"
  by (simp add: binary64_eval)

lemma fractional_range_values:
  "map_option length
     (range_values binary64 (Num 1) (Num 2) (Num (3602879701896397 / 36028797018963968)))
   = Some 10"
  by (simp add: range_values.simps binary64_eval)

lemma those_map_Some: "those (map (\<lambda>v. Some (f v)) vs) = Some (map f vs)"
  by (induction vs) simp_all

lemma generateRecursive_single:
  "map_option length (generateRecursive rd [(key, rng)] baseParams current)
   = map_option length (range_values rd (rng_min rng) (rng_max rng) (rng_step rng))"
  by (cases "range_values rd (rng_min rng) (rng_max rng) (rng_step rng)")
     (simp_all add: those_map_Some comp_def)

text \<open>
  C5. The claim: \<^verbatim>\<open>optimize\<close> evaluates exactly \<open>\<Prod>(\<lfloor>(max - min) / step\<rfloor> + 1)\<close>
  combinations, the count \<^verbatim>\<open>getTotalCombinations\<close> returns. For the one range 1 to 2 by
  0.1 that product is 11, and \<^verbatim>\<open>getTotalCombinations\<close> returns 11 (in exact and in double
  arithmetic). In double arithmetic the loop variable drifts: after ten additions of 0.1 it
  is above 2, so \<^verbatim>\<open>generateCombinations\<close> returns 10 parameter sets and \<^verbatim>\<open>optimize\<close> calls
  \<^verbatim>\<open>engine.run\<close> 10 times and reports \<^verbatim>\<open>totalCombinations = 10\<close>.
\<close>

theorem C5_fractional_step_miscount:
  "map_option length (generateCombinations binary64 fractional_config []) = Some 10
   \<and> map_option (\<lambda>res. (or_totalCombinations res, length (or_evaluated res)))
        (optimize binary64 fractional_optimizer (\<lambda>p. buyAlways) []) = Some (10, 10)
   \<and> getTotalCombinations binary64 fractional_config = Num 11
   \<and> getTotalCombinations (\<lambda>x. x) (fractional_config\<lparr> paramRanges :=
        [(''atrMultiplier'', \<lparr> rng_min = Num 1, rng_max = Num 2, rng_step = Num (1 / 10) \<rparr>)] \<rparr>)
      = Num 11"
proof -
  have g: "map_option length (generateCombinations binary64 fractional_config []) = Some 10"
    using fractional_range_values
    by (simp add: generateCombinations_def fractional_config_def generateRecursive_single
          binary64_tenth del: generateRecursive.simps)
  then obtain combos where
    c: "generateCombinations binary64 (gs_optimizationConfig fractional_optimizer) [] = Some combos"
       "length combos = 10"
    by (auto simp: fractional_optimizer_def)
  from optimize_evaluates_each[OF c(1), of "\<lambda>p. buyAlways"] c(2)
  have o: "map_option (\<lambda>res. (or_totalCombinations res, length (or_evaluated res)))
        (optimize binary64 fractional_optimizer (\<lambda>p. buyAlways) []) = Some (10, 10)"
    by (auto dest: arg_cong[where f = length])
  have t: "getTotalCombinations binary64 fractional_config = Num 11"
    by (simp add: getTotalCombinations_def fractional_config_def binary64_tenth js_sub_def
          binary64_eval)
  have e: "getTotalCombinations (\<lambda>x. x) (fractional_config\<lparr> paramRanges :=
        [(''atrMultiplier'', \<lparr> rng_min = Num 1, rng_max = Num 2, rng_step = Num (1 / 10) \<rparr>)] \<rparr>)
      = Num 11"
    by (simp add: getTotalCombinations_def js_sub_def)
  from g o t e show ?thesis by simp
qed

end
